theory Spec2Isabelle
  imports Main "HOL-Library.Word" "HOL-Library.Signed_Division" "HOL-Library.Sublist"
begin

section \<open>Values shared by both clients (clients.go, lines 17-38)\<close>

text \<open>
  A Go \<^verbatim>\<open>error\<close> is \<open>error option\<close>: \<open>None\<close> is \<^verbatim>\<open>nil\<close>. Pointers that the
  code only passes on (\<^verbatim>\<open>*int64\<close>) are addresses; the pointer
  \<^verbatim>\<open>body *string\<close>, which the code dereferences, is \<open>string option\<close>. Go's
  \<^verbatim>\<open>int\<close>, \<^verbatim>\<open>int64\<close>, \<^verbatim>\<open>uint64\<close> and \<^verbatim>\<open>time.Duration\<close> are 64-bit words, except
  the status code, on which no arithmetic is done and which is an \<open>int\<close>.
\<close>

datatype error = Error string

type_synonym addr = nat

datatype 'a result = Panic error | Return 'a

text \<open>
  A \<^verbatim>\<open>*tls.Config\<close> is \<open>tls_Config option\<close>, the value it points to or \<^verbatim>\<open>nil\<close>: the
  list \<^verbatim>\<open>NextProtos\<close>, which \<^verbatim>\<open>http2.ConfigureTransport\<close> extends, and a number that
  stands for all the other fields (certificates, verification policy), \<open>0\<close> for their
  zero values.
\<close>

record tls_Config =
  NextProtos :: "string list"
  tls_rest :: nat

record header =
  key :: string
  val :: string

type_synonym headersList = "header list"

text \<open>
  An \<^verbatim>\<open>io.ReadCloser\<close>: the bytes it yields, the error (other than end of file) on
  which reading stops, if any, and what \<^verbatim>\<open>Close\<close> returns.
\<close>

record ReadCloser =
  rc_data :: string
  rc_read_err :: "error option"
  rc_close_err :: "error option"

type_synonym bodyStreamProducer = "unit \<Rightarrow> error + ReadCloser"

text \<open>The field \<^verbatim>\<open>method\<close> is \<open>method'\<close> here.\<close>

record clientOpts =
  HTTP2 :: bool
  maxConns :: "64 word"
  timeout :: "64 word"
  tlsConfig :: "tls_Config option"
  disableKeepAlives :: bool
  headers :: headersList
  url :: string  method' :: string  proxyUrl :: string
  body :: "string option"
  bodProd :: bodyStreamProducer
  bytesRead :: addr
  bytesWritten :: addr

text \<open>What \<^verbatim>\<open>url.Parse\<close> gives, as far as the code reads it: scheme, host and
  the value of the call \<^verbatim>\<open>RequestURI()\<close>.\<close>

record URL =
  u_Scheme :: string
  u_Host :: string
  u_RequestURI :: string

text \<open>
  What one call of \<^verbatim>\<open>do\<close> does besides returning: objects taken from and given
  back to the pool, the call of the body factory, the request handed to the
  transport, and the draining and closing of the response body, in order.
\<close>

datatype 'q event =
    AcquireRequest | AcquireResponse | ReleaseRequest | ReleaseResponse
  | BodProdCall | TransportDo 'q | BodyDrain | BodyClose

text \<open>
  The surroundings of one call: what the transport answers to a request, and the
  value of \<^verbatim>\<open>time.Since(start).Nanoseconds()\<close> (an \<^verbatim>\<open>int64\<close>).
\<close>

record ('q, 'p) world =
  transport_Do :: "'q \<Rightarrow> error + 'p"
  since_ns :: "64 word"

text \<open>\<^verbatim>\<open>uint64(time.Since(start).Nanoseconds() / 1000)\<close>: Go's division of signed
  integers truncates towards zero, and the conversion keeps the 64 bits.\<close>

definition usTaken_of :: "64 word \<Rightarrow> 64 word" where
  "usTaken_of ns = word_of_int (sint ns sdiv 1000)"

section \<open>Library functions on strings\<close>

text \<open>\<^verbatim>\<open>strings.Contains(s, substr)\<close>: some suffix of \<open>s\<close> starts with \<open>substr\<close>.\<close>

fun strings_Contains :: "string \<Rightarrow> string \<Rightarrow> bool" where
  "strings_Contains [] sub = (sub = [])"
| "strings_Contains (c # cs) sub = (prefix sub (c # cs) \<or> strings_Contains cs sub)"

text \<open>
  \<^verbatim>\<open>strings.Replace(s, old, new, n)\<close> for \<open>n \<ge> 0\<close>: the first \<open>n\<close> occurrences of
  \<open>old\<close>, found from the left and not overlapping, are replaced by \<open>new\<close>. (An empty \<open>old\<close>
  matches before each byte; the code never passes one.)
\<close>

fun strings_Replace :: "string \<Rightarrow> string \<Rightarrow> string \<Rightarrow> nat \<Rightarrow> string" where
  "strings_Replace s old new 0 = s"
| "strings_Replace [] old new (Suc n) = (if old = [] then new else [])"
| "strings_Replace (c # cs) old new (Suc n) =
     (if old = [] then new @ c # strings_Replace cs old new n
      else if prefix old (c # cs)
        then new @ strings_Replace (drop (length old) (c # cs)) old new n
      else c # strings_Replace cs old new (Suc n))"

section \<open>Header adapters (clients.go, lines 242-263)\<close>

text \<open>
  A \<^verbatim>\<open>fasthttp.RequestHeader\<close>. \<^verbatim>\<open>Set(key, value)\<close> normalises the name (the first
  letter and the letters after a dash in upper case, the others in lower case, unless
  normalising is disabled on the header: that function is the parameter \<open>norm\<close>) and
  then treats seven names in ways of their own:
  \<^item> \<open>Host\<close>, \<open>Content-Type\<close> and \<open>User-Agent\<close> are fields of the header, overwritten;
  \<^item> the cookies of a \<open>Cookie\<close> value are added to the cookies the header holds already:
    \<open>rh_cookies\<close> is the list of the values written, all of them in effect;
  \<^item> a \<open>Content-Length\<close> value is kept, overwriting, when the library reads it as a
    length (it is a number of at most 18 digits), and is dropped otherwise;
  \<^item> \<open>Connection\<close> with the value \<open>close\<close> raises a flag; with another value it lowers
    the flag, removing the \<open>Connection\<close> entry if the flag was up, and writes the entry;
  \<^item> \<open>Transfer-Encoding\<close> is ignored.
  Any other name is an entry of the table \<open>rh_h\<close>, overwritten. \<^verbatim>\<open>Host()\<close> reads the
  field and \<^verbatim>\<open>SetHost\<close> writes it. \<open>RequestHeader_new\<close> is the zero value that
  \<^verbatim>\<open>new(fasthttp.RequestHeader)\<close> gives.
\<close>

record RequestHeader =
  rh_host :: string
  rh_contentType :: string
  rh_userAgent :: string
  rh_cookies :: "string list"
  rh_contentLength :: string
  rh_connectionClose :: bool
  rh_h :: "string \<rightharpoonup> string"

definition parseContentLength_ok :: "string \<Rightarrow> bool" where
  "parseContentLength_ok v \<longleftrightarrow>
     v \<noteq> [] \<and> length v \<le> 18 \<and> list_all (\<lambda>c. c \<in> set ''0123456789'') v"

definition RequestHeader_new :: RequestHeader where
  "RequestHeader_new =
     \<lparr> rh_host = [], rh_contentType = [], rh_userAgent = [], rh_cookies = [],
       rh_contentLength = [], rh_connectionClose = False, rh_h = Map.empty \<rparr>"

definition RequestHeader_Set :: "(string \<Rightarrow> string) \<Rightarrow> string \<Rightarrow> string \<Rightarrow> RequestHeader \<Rightarrow> RequestHeader" where
  "RequestHeader_Set norm k v h =
     (let k' = norm k in
      if k' = ''Host'' then h\<lparr>rh_host := v\<rparr>
      else if k' = ''Content-Type'' then h\<lparr>rh_contentType := v\<rparr>
      else if k' = ''User-Agent'' then h\<lparr>rh_userAgent := v\<rparr>
      else if k' = ''Cookie'' then h\<lparr>rh_cookies := rh_cookies h @ [v]\<rparr>
      else if k' = ''Content-Length'' then
        (if parseContentLength_ok v then h\<lparr>rh_contentLength := v\<rparr> else h)
      else if k' = ''Connection'' then
        (if v = ''close'' then h\<lparr>rh_connectionClose := True\<rparr>
         else
           (let h = (if rh_connectionClose h
                     then h\<lparr>rh_connectionClose := False, rh_h := (rh_h h)(''Connection'' := None)\<rparr>
                     else h)
            in h\<lparr>rh_h := (rh_h h)(k' \<mapsto> v)\<rparr>))
      else if k' = ''Transfer-Encoding'' then h
      else h\<lparr>rh_h := (rh_h h)(k' \<mapsto> v)\<rparr>)"

definition RequestHeader_Host :: "RequestHeader \<Rightarrow> string" where
  "RequestHeader_Host h = rh_host h"

definition RequestHeader_SetHost :: "string \<Rightarrow> RequestHeader \<Rightarrow> RequestHeader" where
  "RequestHeader_SetHost v h = h\<lparr>rh_host := v\<rparr>"

text \<open>The result is a pointer: \<open>None\<close> is the \<^verbatim>\<open>nil\<close> returned for an empty list.\<close>

definition headersToFastHTTPHeaders :: "(string \<Rightarrow> string) \<Rightarrow> headersList \<Rightarrow> RequestHeader option" where
  "headersToFastHTTPHeaders norm h =
     (if length h = 0 then None
      else Some (foldl (\<lambda>res hdr. RequestHeader_Set norm (key hdr) (val hdr) res)
                   RequestHeader_new h))"

text \<open>
  An \<^verbatim>\<open>http.Header\<close> is a Go map from names to lists of values; the adapter
  writes it by map assignment, under the name as given. \<^verbatim>\<open>Get\<close> looks up the
  canonical form of its argument and returns the first value, or the empty string;
  the only argument the code passes, \<open>Host\<close>, is its own canonical form.
\<close>

type_synonym Header = "string \<rightharpoonup> string list"

definition Header_Get :: "Header \<Rightarrow> string \<Rightarrow> string" where
  "Header_Get h k = (case h k of None \<Rightarrow> [] | Some [] \<Rightarrow> [] | Some (v # _) \<Rightarrow> v)"

definition headersToHTTPHeaders :: "headersList \<Rightarrow> Header" where
  "headersToHTTPHeaders h =
     (if length h = 0 then Map.empty
      else foldl (\<lambda>hs hdr. hs(key hdr \<mapsto> [val hdr])) Map.empty h)"

section \<open>The fasthttp client (clients.go, lines 40-137)\<close>

text \<open>
  The three dial functions the constructor chooses from. \<open>fasthttpDialFunc\<close> is
  defined in another file of the repository; it is kept as a constructor with the
  two counters it is given. The two proxy dialers are the library's, with the
  address they are given.
\<close>

datatype DialFunc =
    fasthttpDialFunc addr addr
  | FasthttpSocksDialer string
  | FasthttpHTTPDialer string

text \<open>Modelled from the spec: \<open>fasthttpDialFunc\<close> is the instrumented dialer, a direct
  connect whose connections count the bytes read and written; the proxy dialers of
  the library count nothing.\<close>

fun counts_bytes :: "DialFunc \<Rightarrow> bool" where
  "counts_bytes (fasthttpDialFunc r w) = True"
| "counts_bytes (FasthttpSocksDialer a) = False"
| "counts_bytes (FasthttpHTTPDialer a) = False"

record HostClient =
  Addr :: string
  IsTLS :: bool
  MaxConns :: "64 word"
  ReadTimeout :: "64 word"
  WriteTimeout :: "64 word"
  DisableHeaderNamesNormalizing :: bool
  TLSConfig :: "tls_Config option"
  Dial :: DialFunc

record fasthttpClient =
  fc_client :: HostClient
  fc_headers :: "RequestHeader option"
  fc_host :: string
  fc_requestURI :: string
  fc_method :: string
  fc_body :: "string option"
  fc_bodProd :: bodyStreamProducer

text \<open>Lines 62-73: the choice of the dial function.\<close>

definition newFastHTTPClient_dial :: "clientOpts \<Rightarrow> DialFunc" where
  "newFastHTTPClient_dial opts =
     (if proxyUrl opts \<noteq> [] then
        (if strings_Contains (proxyUrl opts) ''socks5'' then
           (let urlProxy = strings_Replace (proxyUrl opts) ''socks5://'' [] 1
            in FasthttpSocksDialer urlProxy)
         else
           (let urlProxy = strings_Replace (proxyUrl opts) ''https://'' [] 1;
                urlProxy = strings_Replace urlProxy ''http://'' [] 1
            in FasthttpHTTPDialer urlProxy))
      else fasthttpDialFunc (bytesRead opts) (bytesWritten opts))"

text \<open>
  \<open>url_Parse\<close> is the library's \<^verbatim>\<open>url.Parse\<close>; a URL it rejects makes the
  constructor panic.
\<close>

definition newFastHTTPClient ::
  "(string \<Rightarrow> error + URL) \<Rightarrow> (string \<Rightarrow> string) \<Rightarrow> clientOpts \<Rightarrow> fasthttpClient result" where
  "newFastHTTPClient url_Parse norm opts =
     (case url_Parse (url opts) of
        Inl err \<Rightarrow> Panic err
      | Inr u \<Rightarrow>
          Return \<lparr>
            fc_client = \<lparr>
              Addr = u_Host u,
              IsTLS = (u_Scheme u = ''https''),
              MaxConns = maxConns opts,
              ReadTimeout = timeout opts,
              WriteTimeout = timeout opts,
              DisableHeaderNamesNormalizing = True,
              TLSConfig = tlsConfig opts,
              Dial = newFastHTTPClient_dial opts \<rparr>,
            fc_headers = headersToFastHTTPHeaders norm (headers opts),
            fc_host = u_Host u,
            fc_requestURI = u_RequestURI u,
            fc_method = method' opts,
            fc_body = body opts,
            fc_bodProd = bodProd opts \<rparr>)"

text \<open>A \<^verbatim>\<open>fasthttp.Request\<close>, as far as \<^verbatim>\<open>do\<close> writes it. An acquired request is
  blank.\<close>

datatype fh_body = NoBody | BodyString string | BodyStream ReadCloser int

record fh_Request =
  fh_Header :: RequestHeader
  fh_Method :: string
  fh_Scheme :: string
  fh_RequestURI :: string
  fh_Body :: fh_body

record fh_Response =
  fh_StatusCode :: int

definition fasthttp_AcquireRequest :: fh_Request where
  "fasthttp_AcquireRequest =
     \<lparr> fh_Header = RequestHeader_new, fh_Method = [], fh_Scheme = [], fh_RequestURI = [],
       fh_Body = NoBody \<rparr>"

text \<open>Lines 96-111: the request before its body is attached. \<^verbatim>\<open>CopyTo\<close> replaces
  the header of the destination by the template.\<close>

definition fasthttpClient_prepare :: "fasthttpClient \<Rightarrow> fh_Request" where
  "fasthttpClient_prepare c =
     (let req = fasthttp_AcquireRequest;
          req = (case fc_headers c of
                   Some h \<Rightarrow> req\<lparr>fh_Header := h\<rparr>
                 | None \<Rightarrow> req);
          req = (if length (RequestHeader_Host (fh_Header req)) = 0
                 then req\<lparr>fh_Header := RequestHeader_SetHost (fc_host c) (fh_Header req)\<rparr>
                 else req);
          req = req\<lparr>fh_Method := fc_method c\<rparr>;
          req = (if IsTLS (fc_client c) then req\<lparr>fh_Scheme := ''https''\<rparr>
                 else req\<lparr>fh_Scheme := ''http''\<rparr>)
      in req\<lparr>fh_RequestURI := fc_requestURI c\<rparr>)"

text \<open>Lines 122-136: fire the request, take the time, release the pair.\<close>

definition fasthttpClient_fire ::
  "(fh_Request, fh_Response) world \<Rightarrow> fh_Request \<Rightarrow> fh_Request event list
     \<Rightarrow> (int \<times> 64 word \<times> error option) \<times> fh_Request event list" where
  "fasthttpClient_fire w req log =
     (let (code, err) = (case transport_Do w req of
                           Inl e \<Rightarrow> (- 1, Some e)
                         | Inr resp \<Rightarrow> (fh_StatusCode resp, None));
          usTaken = usTaken_of (since_ns w)
      in ((code, usTaken, err), log @ [TransportDo req, ReleaseRequest, ReleaseResponse]))"

definition fasthttpClient_do ::
  "fasthttpClient \<Rightarrow> (fh_Request, fh_Response) world
     \<Rightarrow> (int \<times> 64 word \<times> error option) \<times> fh_Request event list" where
  "fasthttpClient_do c w =
     (let req = fasthttpClient_prepare c;
          log = [AcquireRequest, AcquireResponse]
      in case fc_body c of
           Some b \<Rightarrow> fasthttpClient_fire w (req\<lparr>fh_Body := BodyString b\<rparr>) log
         | None \<Rightarrow>
             (case fc_bodProd c () of
                Inl bserr \<Rightarrow> ((0, 0, Some bserr), log @ [BodProdCall])
              | Inr bs \<Rightarrow>
                  fasthttpClient_fire w (req\<lparr>fh_Body := BodyStream bs (- 1)\<rparr>)
                    (log @ [BodProdCall])))"

section \<open>The net/http client (clients.go, lines 139-240)\<close>

text \<open>\<open>httpDialContextFunc\<close> is defined in another file of the repository; it is kept as
  a constructor with the two counters it is given.\<close>

datatype DialContextFunc = httpDialContextFunc addr addr

text \<open>Modelled from the spec: \<open>httpDialContextFunc\<close> is the instrumented dialer for
  net/http, a direct connect whose connections count the bytes read and written.\<close>

fun counts_bytes_ctx :: "DialContextFunc \<Rightarrow> bool" where
  "counts_bytes_ctx (httpDialContextFunc r w) = True"

datatype ProxyFunc = ProxyURL "URL option"

datatype NextProto = NextProtoHTTP2 | NextProtoNone

datatype RedirectPolicy = ErrUseLastResponse

record Transport =
  TLSClientConfig :: "tls_Config option"
  MaxIdleConnsPerHost :: "64 word"
  DisableKeepAlives :: bool
  Proxy :: "ProxyFunc option"
  DialContext :: "DialContextFunc option"
  TLSNextProto :: "NextProto option"

record Client =
  Transport :: Transport
  Timeout :: "64 word"
  CheckRedirect :: RedirectPolicy

record httpClient =
  hc_client :: Client
  hc_headers :: Header
  hc_url :: URL
  hc_method :: string
  hc_body :: "string option"
  hc_bodProd :: bodyStreamProducer

text \<open>
  \<^verbatim>\<open>http2.ConfigureTransport\<close>, on a transport on which HTTP/2 is not registered yet
  (the only one the code passes): it gives the transport a new \<^verbatim>\<open>tls.Config\<close> when it has
  none, puts \<open>h2\<close> in front of the \<^verbatim>\<open>NextProtos\<close> of the configuration and \<open>http/1.1\<close>
  behind them, each unless it is there already, and registers HTTP/2 in
  \<^verbatim>\<open>TLSNextProto\<close>. It touches no other field.
\<close>

definition http2_NextProtos :: "tls_Config \<Rightarrow> tls_Config" where
  "http2_NextProtos cfg =
     (let cfg = (if ''h2'' \<notin> set (NextProtos cfg)
                 then cfg\<lparr>NextProtos := ''h2'' # NextProtos cfg\<rparr> else cfg)
      in if ''http/1.1'' \<notin> set (NextProtos cfg)
         then cfg\<lparr>NextProtos := NextProtos cfg @ [''http/1.1'']\<rparr> else cfg)"

definition http2_ConfigureTransport :: "Transport \<Rightarrow> Transport" where
  "http2_ConfigureTransport t1 =
     (let t1 = (if TLSClientConfig t1 = None
                then t1\<lparr>TLSClientConfig := Some \<lparr> NextProtos = [], tls_rest = 0 \<rparr>\<rparr>
                else t1);
          t1 = t1\<lparr>TLSClientConfig := map_option http2_NextProtos (TLSClientConfig t1)\<rparr>
      in t1\<lparr>TLSNextProto := Some NextProtoHTTP2\<rparr>)"

text \<open>
  \<open>URL_Parse\<close> is the function \<^verbatim>\<open>Parse\<close> of an empty \<^verbatim>\<open>url.URL\<close>, whose error the
  code drops: \<open>None\<close> is the \<^verbatim>\<open>nil\<close> it returns with an error. Without HTTP/2 the code
  installs an empty table in \<^verbatim>\<open>TLSNextProto\<close>.
\<close>

definition newHTTPClient ::
  "(string \<Rightarrow> error + URL) \<Rightarrow> (string \<Rightarrow> URL option) \<Rightarrow> clientOpts \<Rightarrow> httpClient result" where
  "newHTTPClient url_Parse URL_Parse opts =
     (let tr = \<lparr> TLSClientConfig = tlsConfig opts,
                 MaxIdleConnsPerHost = maxConns opts,
                 DisableKeepAlives = disableKeepAlives opts,
                 Proxy = None, DialContext = None, TLSNextProto = None \<rparr>;
          tr = (if proxyUrl opts \<noteq> []
                then (let urlProxy = URL_Parse (proxyUrl opts)
                      in tr\<lparr>Proxy := Some (ProxyURL urlProxy)\<rparr>)
                else tr);
          tr = tr\<lparr>DialContext := Some (httpDialContextFunc (bytesRead opts) (bytesWritten opts))\<rparr>;
          tr = (if HTTP2 opts then http2_ConfigureTransport tr
                else tr\<lparr>TLSNextProto := Some NextProtoNone\<rparr>);
          cl = \<lparr> Transport = tr, Timeout = timeout opts, CheckRedirect = ErrUseLastResponse \<rparr>
      in case url_Parse (url opts) of
           Inl err \<Rightarrow> Panic err
         | Inr u \<Rightarrow>
             Return \<lparr> hc_client = cl,
                      hc_headers = headersToHTTPHeaders (headers opts),
                      hc_url = u,
                      hc_method = method' opts,
                      hc_body = body opts,
                      hc_bodProd = bodProd opts \<rparr>)"

record Request =
  Header :: Header
  Method :: string
  URL :: URL
  Host :: string
  ContentLength :: "64 word"
  Body :: "ReadCloser option"

record Response =
  StatusCode :: int
  resp_Body :: ReadCloser

text \<open>\<^verbatim>\<open>ioutil.NopCloser(strings.NewReader(s))\<close>\<close>

definition NopCloser :: "string \<Rightarrow> ReadCloser" where
  "NopCloser s = \<lparr> rc_data = s, rc_read_err = None, rc_close_err = None \<rparr>"

text \<open>The error of \<^verbatim>\<open>io.Copy(ioutil.Discard, r)\<close>, which reads \<open>r\<close> to its end or to
  the first error.\<close>

definition io_Copy_Discard :: "ReadCloser \<Rightarrow> error option" where
  "io_Copy_Discard r = rc_read_err r"

definition ReadCloser_Close :: "ReadCloser \<Rightarrow> error option" where
  "ReadCloser_Close r = rc_close_err r"

text \<open>Lines 199-207: the request before its body is attached.\<close>

definition httpClient_prepare :: "httpClient \<Rightarrow> Request" where
  "httpClient_prepare c =
     (let req = \<lparr> Header = Map.empty, Method = [], URL = \<lparr>u_Scheme = [], u_Host = [], u_RequestURI = []\<rparr>,
                  Host = [], ContentLength = 0, Body = None \<rparr>;
          req = req\<lparr>Header := hc_headers c\<rparr>;
          req = req\<lparr>Method := hc_method c\<rparr>;
          req = req\<lparr>URL := hc_url c\<rparr>;
          host = Header_Get (Header req) ''Host''
      in if host \<noteq> [] then req\<lparr>Host := host\<rparr> else req)"

text \<open>Lines 221-239: fire the request; on success drain and close the body.\<close>

definition httpClient_fire ::
  "(Request, Response) world \<Rightarrow> Request \<Rightarrow> Request event list
     \<Rightarrow> (int \<times> 64 word \<times> error option) \<times> Request event list" where
  "httpClient_fire w req log =
     (let (code, err, log) =
            (case transport_Do w req of
               Inl e \<Rightarrow> (- 1, Some e, log @ [TransportDo req])
             | Inr resp \<Rightarrow>
                 (let code = StatusCode resp;
                      err = None;
                      berr = io_Copy_Discard (resp_Body resp);
                      err = (if berr \<noteq> None then berr else err);
                      cerr = ReadCloser_Close (resp_Body resp);
                      err = (if cerr \<noteq> None then cerr else err)
                  in (code, err, log @ [TransportDo req, BodyDrain, BodyClose])));
          usTaken = usTaken_of (since_ns w)
      in ((code, usTaken, err), log))"

definition httpClient_do ::
  "httpClient \<Rightarrow> (Request, Response) world
     \<Rightarrow> (int \<times> 64 word \<times> error option) \<times> Request event list" where
  "httpClient_do c w =
     (let req = httpClient_prepare c
      in case hc_body c of
           Some b \<Rightarrow>
             httpClient_fire w
               (req\<lparr>ContentLength := word_of_nat (length b), Body := Some (NopCloser b)\<rparr>) []
         | None \<Rightarrow>
             (case hc_bodProd c () of
                Inl bserr \<Rightarrow> ((0, 0, Some bserr), [BodProdCall])
              | Inr bs \<Rightarrow> httpClient_fire w (req\<lparr>Body := Some bs\<rparr>) [BodProdCall]))"

section \<open>Vocabulary of the properties\<close>

text \<open>
  The values written for a name in a header list, in order, and the one written last,
  names being compared after \<open>f\<close> (the normalisation of the transport, or nothing).
\<close>

definition all_values :: "(string \<Rightarrow> string) \<Rightarrow> headersList \<Rightarrow> string \<Rightarrow> string list" where
  "all_values f hs k = map val (filter (\<lambda>h. f (key h) = k) hs)"

definition last_value :: "(string \<Rightarrow> string) \<Rightarrow> headersList \<Rightarrow> string \<Rightarrow> string option" where
  "last_value f hs k =
     (let written = filter (\<lambda>h. f (key h) = k) hs
      in if written = [] then None else Some (val (last written)))"

text \<open>
  \<open>t\<close> is \<open>s\<close> without its first occurrence of \<open>old\<close>, and \<open>s\<close> itself when \<open>old\<close> does
  not occur in it. An occurrence is the first one when \<open>old\<close> does not occur in what
  precedes it followed by all of it but its last character.
\<close>

definition removed_first :: "string \<Rightarrow> string \<Rightarrow> string \<Rightarrow> bool" where
  "removed_first old s t \<longleftrightarrow>
     (\<not> sublist old s \<and> t = s) \<or>
     (\<exists>pre post. s = pre @ old @ post \<and> \<not> sublist old (pre @ butlast old) \<and> t = pre @ post)"

text \<open>Stripping a prefix, as \<^verbatim>\<open>strings.TrimPrefix\<close> does.\<close>

definition strings_TrimPrefix :: "string \<Rightarrow> string \<Rightarrow> string" where
  "strings_TrimPrefix s p = (if prefix p s then drop (length p) s else s)"

section \<open>Example configuration and surroundings\<close>

definition ex_url_Parse :: "string \<Rightarrow> error + URL" where
  "ex_url_Parse s =
     (if s = ''http://example.test/items''
      then Inr \<lparr> u_Scheme = ''http'', u_Host = ''example.test'', u_RequestURI = ''/items'' \<rparr>
      else Inl (Error ''invalid URL''))"

definition ex_URL_Parse :: "string \<Rightarrow> URL option" where
  "ex_URL_Parse s =
     (if s = [] then None
      else Some \<lparr> u_Scheme = ''http'', u_Host = ''proxy.test:8080'', u_RequestURI = ''/'' \<rparr>)"

definition ex_tls :: tls_Config where
  "ex_tls = \<lparr> NextProtos = [], tls_rest = 7 \<rparr>"

definition ex_opts :: clientOpts where
  "ex_opts =
     \<lparr> HTTP2 = False, maxConns = 125, timeout = 2000000000, tlsConfig = Some ex_tls,
       disableKeepAlives = False,
       headers = [\<lparr> key = ''Content-Type'', val = ''application/json'' \<rparr>],
       url = ''http://example.test/items'', method' = ''POST'', proxyUrl = [],
       body = Some ''{}'', bodProd = (\<lambda>_. Inl (Error ''no stream'')),
       bytesRead = 1, bytesWritten = 2 \<rparr>"

definition ex_fasthttpClient :: fasthttpClient where
  "ex_fasthttpClient =
     \<lparr> fc_client =
         \<lparr> Addr = ''example.test'', IsTLS = False, MaxConns = 125,
           ReadTimeout = 2000000000, WriteTimeout = 2000000000,
           DisableHeaderNamesNormalizing = True, TLSConfig = Some ex_tls,
           Dial = fasthttpDialFunc 1 2 \<rparr>,
       fc_headers = Some (RequestHeader_new\<lparr>rh_contentType := ''application/json''\<rparr>),
       fc_host = ''example.test'', fc_requestURI = ''/items'', fc_method = ''POST'',
       fc_body = Some ''{}'', fc_bodProd = (\<lambda>_. Inl (Error ''no stream'')) \<rparr>"

definition ex_fh_Request :: fh_Request where
  "ex_fh_Request =
     \<lparr> fh_Header =
         RequestHeader_new\<lparr>rh_host := ''example.test'', rh_contentType := ''application/json''\<rparr>,
       fh_Method = ''POST'', fh_Scheme = ''http'', fh_RequestURI = ''/items'',
       fh_Body = BodyString ''{}'' \<rparr>"

definition ex_httpClient :: httpClient where
  "ex_httpClient =
     \<lparr> hc_client =
         \<lparr> Transport =
             \<lparr> TLSClientConfig = Some ex_tls, MaxIdleConnsPerHost = 125,
               DisableKeepAlives = False, Proxy = None,
               DialContext = Some (httpDialContextFunc 1 2),
               TLSNextProto = Some NextProtoNone \<rparr>,
           Timeout = 2000000000, CheckRedirect = ErrUseLastResponse \<rparr>,
       hc_headers = [''Content-Type'' \<mapsto> [''application/json'']],
       hc_url = \<lparr> u_Scheme = ''http'', u_Host = ''example.test'', u_RequestURI = ''/items'' \<rparr>,
       hc_method = ''POST'', hc_body = Some ''{}'',
       hc_bodProd = (\<lambda>_. Inl (Error ''no stream'')) \<rparr>"

definition ex_Request :: Request where
  "ex_Request =
     \<lparr> Header = [''Content-Type'' \<mapsto> [''application/json'']], Method = ''POST'',
       URL = \<lparr> u_Scheme = ''http'', u_Host = ''example.test'', u_RequestURI = ''/items'' \<rparr>,
       Host = [], ContentLength = 2, Body = Some (NopCloser ''{}'') \<rparr>"

definition ex_refused_fh :: "(fh_Request, fh_Response) world" where
  "ex_refused_fh =
     \<lparr> transport_Do = (\<lambda>req. Inl (Error ''connection refused'')), since_ns = 2000999 \<rparr>"

definition ex_created_fh :: "(fh_Request, fh_Response) world" where
  "ex_created_fh =
     \<lparr> transport_Do = (\<lambda>req. Inr \<lparr> fh_StatusCode = 201 \<rparr>), since_ns = 1500000 \<rparr>"

definition ex_refused :: "(Request, Response) world" where
  "ex_refused =
     \<lparr> transport_Do = (\<lambda>req. Inl (Error ''connection refused'')), since_ns = 2000999 \<rparr>"

definition ex_created :: "(Request, Response) world" where
  "ex_created =
     \<lparr> transport_Do = (\<lambda>req. Inr \<lparr> StatusCode = 201, resp_Body = NopCloser ''created'' \<rparr>),
       since_ns = 1500000 \<rparr>"

definition ex_broken_body :: ReadCloser where
  "ex_broken_body =
     \<lparr> rc_data = ''par'', rc_read_err = Some (Error ''unexpected EOF''),
       rc_close_err = Some (Error ''close failed'') \<rparr>"

definition ex_broken :: "(Request, Response) world" where
  "ex_broken =
     \<lparr> transport_Do = (\<lambda>req. Inr \<lparr> StatusCode = 200, resp_Body = ex_broken_body \<rparr>),
       since_ns = 1500000 \<rparr>"

definition ex_truncated :: "(Request, Response) world" where
  "ex_truncated =
     \<lparr> transport_Do =
         (\<lambda>req. Inr \<lparr> StatusCode = 200,
                      resp_Body = \<lparr> rc_data = ''par'', rc_read_err = Some (Error ''unexpected EOF''),
                                    rc_close_err = None \<rparr> \<rparr>),
       since_ns = 1500000 \<rparr>"

text \<open>The two example clients with a body factory, which fails, in place of the fixed
  body.\<close>

definition ex_streaming_fasthttpClient :: fasthttpClient where
  "ex_streaming_fasthttpClient = ex_fasthttpClient\<lparr>fc_body := None\<rparr>"

definition ex_streaming_httpClient :: httpClient where
  "ex_streaming_httpClient = ex_httpClient\<lparr>hc_body := None\<rparr>"

text \<open>The two example clients with a body factory that gives a stream.\<close>

definition ex_upload_fasthttpClient :: fasthttpClient where
  "ex_upload_fasthttpClient =
     ex_fasthttpClient\<lparr>fc_body := None, fc_bodProd := (\<lambda>_. Inr (NopCloser ''{}''))\<rparr>"

definition ex_upload_httpClient :: httpClient where
  "ex_upload_httpClient =
     ex_httpClient\<lparr>hc_body := None, hc_bodProd := (\<lambda>_. Inr (NopCloser ''{}''))\<rparr>"

text \<open>Header lists: a name written twice, an empty \<open>Host\<close> header, two \<open>Host\<close>
  headers; and the clients and requests they lead to.\<close>

definition ex_duplicates :: headersList where
  "ex_duplicates =
     [\<lparr> key = ''Accept'', val = ''text/html'' \<rparr>, \<lparr> key = ''X-Run'', val = ''1'' \<rparr>,
      \<lparr> key = ''Accept'', val = ''application/json'' \<rparr>]"

definition ex_emptyhost_opts :: clientOpts where
  "ex_emptyhost_opts = ex_opts\<lparr>headers := [\<lparr> key = ''Host'', val = [] \<rparr>]\<rparr>"

definition ex_emptyhost_fasthttpClient :: fasthttpClient where
  "ex_emptyhost_fasthttpClient = ex_fasthttpClient\<lparr>fc_headers := Some RequestHeader_new\<rparr>"

definition ex_emptyhost_fh_Request :: fh_Request where
  "ex_emptyhost_fh_Request =
     \<lparr> fh_Header = RequestHeader_new\<lparr>rh_host := ''example.test''\<rparr>,
       fh_Method = ''POST'', fh_Scheme = ''http'', fh_RequestURI = ''/items'',
       fh_Body = BodyString ''{}'' \<rparr>"

definition ex_vhost_opts :: clientOpts where
  "ex_vhost_opts =
     ex_opts\<lparr>headers := [\<lparr> key = ''Host'', val = ''a.test'' \<rparr>, \<lparr> key = ''Host'', val = ''b.test'' \<rparr>]\<rparr>"

definition ex_vhost_fasthttpClient :: fasthttpClient where
  "ex_vhost_fasthttpClient =
     ex_fasthttpClient\<lparr>fc_headers := Some (RequestHeader_new\<lparr>rh_host := ''b.test''\<rparr>)\<rparr>"

definition ex_vhost_fh_Request :: fh_Request where
  "ex_vhost_fh_Request = ex_fh_Request\<lparr>fh_Header := RequestHeader_new\<lparr>rh_host := ''b.test''\<rparr>\<rparr>"

definition ex_vhost_httpClient :: httpClient where
  "ex_vhost_httpClient = ex_httpClient\<lparr>hc_headers := [''Host'' \<mapsto> [''b.test'']]\<rparr>"

definition ex_vhost_Request :: Request where
  "ex_vhost_Request = ex_Request\<lparr>Header := [''Host'' \<mapsto> [''b.test'']], Host := ''b.test''\<rparr>"

text \<open>A \<open>Host\<close> header spelled in lower case, for the net/http client.\<close>

definition ex_lowerhost_opts :: clientOpts where
  "ex_lowerhost_opts = ex_opts\<lparr>headers := [\<lparr> key = ''host'', val = ''c.test'' \<rparr>]\<rparr>"

definition ex_lowerhost_httpClient :: httpClient where
  "ex_lowerhost_httpClient = ex_httpClient\<lparr>hc_headers := [''host'' \<mapsto> [''c.test'']]\<rparr>"

definition ex_lowerhost_Request :: Request where
  "ex_lowerhost_Request = ex_Request\<lparr>Header := [''host'' \<mapsto> [''c.test'']]\<rparr>"

text \<open>Two \<open>Cookie\<close> headers, and a \<open>Transfer-Encoding\<close> header.\<close>

definition ex_cookies :: headersList where
  "ex_cookies = [\<lparr> key = ''Cookie'', val = ''a=1'' \<rparr>, \<lparr> key = ''Cookie'', val = ''b=2'' \<rparr>]"

definition ex_transfer :: headersList where
  "ex_transfer = [\<lparr> key = ''Transfer-Encoding'', val = ''chunked'' \<rparr>]"

text \<open>HTTP/2 without a TLS configuration, and the net/http client it leads to.\<close>

definition ex_h2_opts :: clientOpts where
  "ex_h2_opts = ex_opts\<lparr>HTTP2 := True, tlsConfig := None\<rparr>"

definition ex_h2_httpClient :: httpClient where
  "ex_h2_httpClient =
     ex_httpClient\<lparr>hc_client := (hc_client ex_httpClient)\<lparr>Transport :=
       (Transport (hc_client ex_httpClient))\<lparr>
         TLSClientConfig := Some \<lparr> NextProtos = [''h2'', ''http/1.1''], tls_rest = 0 \<rparr>,
         TLSNextProto := Some NextProtoHTTP2\<rparr>\<rparr>\<rparr>"

text \<open>Proxy URLs: SOCKS5, HTTP, and an HTTP one with a second scheme marker inside.\<close>

definition ex_socks_opts :: clientOpts where
  "ex_socks_opts = ex_opts\<lparr>proxyUrl := ''socks5://proxy.test:1080''\<rparr>"

definition ex_proxy_opts :: clientOpts where
  "ex_proxy_opts = ex_opts\<lparr>proxyUrl := ''http://proxy.test:8080''\<rparr>"

definition ex_nested_opts :: clientOpts where
  "ex_nested_opts = ex_opts\<lparr>proxyUrl := ''http://a/https://b''\<rparr>"

definition ex_socks_fasthttpClient :: fasthttpClient where
  "ex_socks_fasthttpClient =
     ex_fasthttpClient\<lparr>fc_client := (fc_client ex_fasthttpClient)\<lparr>Dial := FasthttpSocksDialer ''proxy.test:1080''\<rparr>\<rparr>"

definition ex_proxy_fasthttpClient :: fasthttpClient where
  "ex_proxy_fasthttpClient =
     ex_fasthttpClient\<lparr>fc_client := (fc_client ex_fasthttpClient)\<lparr>Dial := FasthttpHTTPDialer ''proxy.test:8080''\<rparr>\<rparr>"

definition ex_nested_fasthttpClient :: fasthttpClient where
  "ex_nested_fasthttpClient =
     ex_fasthttpClient\<lparr>fc_client := (fc_client ex_fasthttpClient)\<lparr>Dial := FasthttpHTTPDialer ''a/b''\<rparr>\<rparr>"

definition ex_proxy_httpClient :: httpClient where
  "ex_proxy_httpClient =
     ex_httpClient\<lparr>hc_client := (hc_client ex_httpClient)\<lparr>Transport :=
       (Transport (hc_client ex_httpClient))\<lparr>Proxy :=
         Some (ProxyURL (Some \<lparr> u_Scheme = ''http'', u_Host = ''proxy.test:8080'', u_RequestURI = ''/'' \<rparr>))\<rparr>\<rparr>\<rparr>"

section \<open>Elapsed time and the example clients\<close>

lemma usTaken_of_nonneg:
  assumes "0 \<le> sint ns"
  shows "uint (usTaken_of ns) = sint ns div 1000"
proof -
  have lt: "sint ns < 2 ^ 63" using sint_lt [of ns] by simp
  have e: "sint ns sdiv 1000 = sint ns div 1000"
    using assms by (simp add: signed_divide_int_def sgn_if)
  have b0: "0 \<le> sint ns div 1000" using assms by simp
  have "sint ns div 1000 \<le> sint ns" using zdiv_mono2 [of "sint ns" 1 1000] assms by simp
  moreover have "(2::int) ^ 63 < 2 ^ 64" by simp
  ultimately have b1: "sint ns div 1000 < 2 ^ 64" using lt by linarith
  show ?thesis
    unfolding usTaken_of_def e using b0 b1
    by (simp add: uint_word_of_int take_bit_int_eq_self)
qed

lemma ex_new_fasthttp: "newFastHTTPClient ex_url_Parse (\<lambda>k. k) ex_opts = Return ex_fasthttpClient"
  by (simp add: newFastHTTPClient_def ex_url_Parse_def ex_opts_def ex_fasthttpClient_def
      newFastHTTPClient_dial_def headersToFastHTTPHeaders_def RequestHeader_Set_def
      RequestHeader_new_def)

lemma ex_new_http: "newHTTPClient ex_url_Parse ex_URL_Parse ex_opts = Return ex_httpClient"
  by (simp add: newHTTPClient_def ex_url_Parse_def ex_opts_def ex_httpClient_def
      headersToHTTPHeaders_def)

lemma ex_fh_prepare:
  "(fasthttpClient_prepare ex_fasthttpClient)\<lparr>fh_Body := BodyString ''{}''\<rparr> = ex_fh_Request"
  by (simp add: fasthttpClient_prepare_def ex_fasthttpClient_def ex_fh_Request_def
      fasthttp_AcquireRequest_def RequestHeader_Host_def RequestHeader_SetHost_def
      RequestHeader_new_def)

lemma ex_prepare:
  "(httpClient_prepare ex_httpClient)\<lparr>ContentLength := 2, Body := Some (NopCloser ''{}'')\<rparr> = ex_Request"
  by (simp add: httpClient_prepare_def ex_httpClient_def ex_Request_def Header_Get_def)

section \<open>Outcome of a submitted request\<close>

text \<open>
  A call with a fixed body, or with a body factory that gives a stream, hands the
  request it has built to the transport and is the code of lines 122-136 (221-239 for
  net/http) run on that request. With the calls on which the factory fails, these are
  all the calls.
\<close>

lemma fasthttp_do_fixed:
  assumes "fc_body c = Some b"
  shows "fasthttpClient_do c w =
     fasthttpClient_fire w ((fasthttpClient_prepare c)\<lparr>fh_Body := BodyString b\<rparr>)
       [AcquireRequest, AcquireResponse]"
  using assms by (simp add: fasthttpClient_do_def)

lemma fasthttp_do_stream:
  assumes "fc_body c = None" and "fc_bodProd c () = Inr bs"
  shows "fasthttpClient_do c w =
     fasthttpClient_fire w ((fasthttpClient_prepare c)\<lparr>fh_Body := BodyStream bs (- 1)\<rparr>)
       [AcquireRequest, AcquireResponse, BodProdCall]"
  using assms by (simp add: fasthttpClient_do_def)

lemma http_do_fixed:
  assumes "hc_body c = Some b"
  shows "httpClient_do c w =
     httpClient_fire w
       ((httpClient_prepare c)\<lparr>ContentLength := word_of_nat (length b), Body := Some (NopCloser b)\<rparr>) []"
  using assms by (simp add: httpClient_do_def)

lemma http_do_stream:
  assumes "hc_body c = None" and "hc_bodProd c () = Inr bs"
  shows "httpClient_do c w =
     httpClient_fire w ((httpClient_prepare c)\<lparr>Body := Some bs\<rparr>) [BodProdCall]"
  using assms by (simp add: httpClient_do_def)

lemma fasthttp_fire_outcome:
  "TransportDo req \<in> set (snd (fasthttpClient_fire w req log)) \<and>
   (case transport_Do w req of
      Inl e \<Rightarrow> fst (fasthttpClient_fire w req log) = (- 1, usTaken_of (since_ns w), Some e)
    | Inr resp \<Rightarrow>
        fst (fasthttpClient_fire w req log) = (fh_StatusCode resp, usTaken_of (since_ns w), None))"
  by (simp add: fasthttpClient_fire_def split: sum.splits)

lemma http_fire_outcome:
  "TransportDo req \<in> set (snd (httpClient_fire w req log)) \<and>
   (case transport_Do w req of
      Inl e \<Rightarrow> fst (httpClient_fire w req log) = (- 1, usTaken_of (since_ns w), Some e)
    | Inr resp \<Rightarrow>
        fst (httpClient_fire w req log) =
          (StatusCode resp, usTaken_of (since_ns w),
           if ReadCloser_Close (resp_Body resp) \<noteq> None then ReadCloser_Close (resp_Body resp)
           else io_Copy_Discard (resp_Body resp)))"
  by (auto simp: httpClient_fire_def Let_def split: sum.splits)

lemma http_do_submits:
  assumes "httpClient_do c w = (r, log)" and "TransportDo req \<in> set log"
  shows "(r, log) = httpClient_fire w req (takeWhile (\<lambda>e. e \<noteq> TransportDo req) log)"
  using assms
  by (auto simp: httpClient_do_def httpClient_fire_def Let_def
      split: option.splits sum.splits)

text \<open>
  C1. In both clients, every call of \<open>do\<close> with a fixed body, or with a body factory
  that gives a stream, hands the request built from the client and that body to the
  transport. If the transport fails on it, the call returns the code \<open>-1\<close>, the elapsed
  time and the error of the transport. If the transport answers, the call returns the
  status of the response, the elapsed time and, in the fasthttp client, no error; in the
  net/http client the error of closing the body if there is one, else the error of
  draining it, hence no error when neither fails. The elapsed time is the elapsed
  nanoseconds divided by 1000, which for an elapsed time that is not negative is its
  number of whole microseconds.
\<close>

theorem C1_transport_outcome:
  "((fc_body ca = Some ba \<and>
     reqa = (fasthttpClient_prepare ca)\<lparr>fh_Body := BodyString ba\<rparr>) \<or>
    (fc_body ca = None \<and> fc_bodProd ca () = Inr bsa \<and>
     reqa = (fasthttpClient_prepare ca)\<lparr>fh_Body := BodyStream bsa (- 1)\<rparr>) \<longrightarrow>
      TransportDo reqa \<in> set (snd (fasthttpClient_do ca wa)) \<and>
      (0 \<le> sint (since_ns wa) \<longrightarrow>
         uint (usTaken_of (since_ns wa)) = sint (since_ns wa) div 1000) \<and>
      (case transport_Do wa reqa of
         Inl e \<Rightarrow> fst (fasthttpClient_do ca wa) = (- 1, usTaken_of (since_ns wa), Some e)
       | Inr resp \<Rightarrow>
           fst (fasthttpClient_do ca wa) =
             (fh_StatusCode resp, usTaken_of (since_ns wa), None))) \<and>
   ((hc_body cb = Some bb \<and>
     reqb = (httpClient_prepare cb)\<lparr>ContentLength := word_of_nat (length bb),
                                      Body := Some (NopCloser bb)\<rparr>) \<or>
    (hc_body cb = None \<and> hc_bodProd cb () = Inr bsb \<and>
     reqb = (httpClient_prepare cb)\<lparr>Body := Some bsb\<rparr>) \<longrightarrow>
      TransportDo reqb \<in> set (snd (httpClient_do cb wb)) \<and>
      (0 \<le> sint (since_ns wb) \<longrightarrow>
         uint (usTaken_of (since_ns wb)) = sint (since_ns wb) div 1000) \<and>
      (case transport_Do wb reqb of
         Inl e \<Rightarrow> fst (httpClient_do cb wb) = (- 1, usTaken_of (since_ns wb), Some e)
       | Inr resp \<Rightarrow>
           fst (httpClient_do cb wb) =
             (StatusCode resp, usTaken_of (since_ns wb),
              if ReadCloser_Close (resp_Body resp) \<noteq> None
              then ReadCloser_Close (resp_Body resp)
              else io_Copy_Discard (resp_Body resp)) \<and>
           (io_Copy_Discard (resp_Body resp) = None \<and>
            ReadCloser_Close (resp_Body resp) = None \<longrightarrow>
              snd (snd (fst (httpClient_do cb wb))) = None)))"
proof (intro conjI impI)
  assume a: "(fc_body ca = Some ba \<and>
     reqa = (fasthttpClient_prepare ca)\<lparr>fh_Body := BodyString ba\<rparr>) \<or>
    (fc_body ca = None \<and> fc_bodProd ca () = Inr bsa \<and>
     reqa = (fasthttpClient_prepare ca)\<lparr>fh_Body := BodyStream bsa (- 1)\<rparr>)"
  then obtain log where d: "fasthttpClient_do ca wa = fasthttpClient_fire wa reqa log"
    using fasthttp_do_fixed [of ca ba wa] fasthttp_do_stream [of ca bsa wa] by auto
  show "TransportDo reqa \<in> set (snd (fasthttpClient_do ca wa))"
    using fasthttp_fire_outcome [of reqa wa log] d by simp
  show "case transport_Do wa reqa of
         Inl e \<Rightarrow> fst (fasthttpClient_do ca wa) = (- 1, usTaken_of (since_ns wa), Some e)
       | Inr resp \<Rightarrow>
           fst (fasthttpClient_do ca wa) =
             (fh_StatusCode resp, usTaken_of (since_ns wa), None)"
    unfolding d using fasthttp_fire_outcome [of reqa wa log] by blast
  show "uint (usTaken_of (since_ns wa)) = sint (since_ns wa) div 1000"
    if "0 \<le> sint (since_ns wa)"
    using that by (rule usTaken_of_nonneg)
next
  assume a: "(hc_body cb = Some bb \<and>
     reqb = (httpClient_prepare cb)\<lparr>ContentLength := word_of_nat (length bb),
                                      Body := Some (NopCloser bb)\<rparr>) \<or>
    (hc_body cb = None \<and> hc_bodProd cb () = Inr bsb \<and>
     reqb = (httpClient_prepare cb)\<lparr>Body := Some bsb\<rparr>)"
  then obtain log where d: "httpClient_do cb wb = httpClient_fire wb reqb log"
    using http_do_fixed [of cb bb wb] http_do_stream [of cb bsb wb] by auto
  show "TransportDo reqb \<in> set (snd (httpClient_do cb wb))"
    using http_fire_outcome [of reqb wb log] d by simp
  show "case transport_Do wb reqb of
         Inl e \<Rightarrow> fst (httpClient_do cb wb) = (- 1, usTaken_of (since_ns wb), Some e)
       | Inr resp \<Rightarrow>
           fst (httpClient_do cb wb) =
             (StatusCode resp, usTaken_of (since_ns wb),
              if ReadCloser_Close (resp_Body resp) \<noteq> None
              then ReadCloser_Close (resp_Body resp)
              else io_Copy_Discard (resp_Body resp)) \<and>
           (io_Copy_Discard (resp_Body resp) = None \<and>
            ReadCloser_Close (resp_Body resp) = None \<longrightarrow>
              snd (snd (fst (httpClient_do cb wb))) = None)"
    unfolding d using http_fire_outcome [of reqb wb log] by (auto split: sum.splits)
  show "uint (usTaken_of (since_ns wb)) = sint (since_ns wb) div 1000"
    if "0 \<le> sint (since_ns wb)"
    using that by (rule usTaken_of_nonneg)
qed

lemma ex_do_refused_fh:
  "fasthttpClient_do ex_fasthttpClient ex_refused_fh =
     ((- 1, 2000, Some (Error ''connection refused'')),
      [AcquireRequest, AcquireResponse, TransportDo ex_fh_Request, ReleaseRequest, ReleaseResponse])"
proof -
  have b: "fc_body ex_fasthttpClient = Some ''{}''"
    by (simp add: ex_fasthttpClient_def)
  have "fasthttpClient_do ex_fasthttpClient ex_refused_fh =
      fasthttpClient_fire ex_refused_fh ex_fh_Request [AcquireRequest, AcquireResponse]"
    by (simp add: fasthttpClient_do_def b ex_fh_prepare)
  then show ?thesis
    by (simp add: fasthttpClient_fire_def ex_refused_fh_def usTaken_of_def signed_divide_int_def)
qed

theorem C1_transport_outcome_witness:
  "fc_body ex_fasthttpClient = Some ''{}'' \<and>
   ex_fh_Request = (fasthttpClient_prepare ex_fasthttpClient)\<lparr>fh_Body := BodyString ''{}''\<rparr> \<and>
   transport_Do ex_refused_fh ex_fh_Request = Inl (Error ''connection refused'') \<and>
   fst (fasthttpClient_do ex_fasthttpClient ex_refused_fh) =
     (- 1, 2000, Some (Error ''connection refused'')) \<and>
   transport_Do ex_created_fh ex_fh_Request = Inr \<lparr> fh_StatusCode = 201 \<rparr> \<and>
   fst (fasthttpClient_do ex_fasthttpClient ex_created_fh) = (201, 1500, None) \<and>
   hc_body ex_httpClient = Some ''{}'' \<and>
   ex_Request =
     (httpClient_prepare ex_httpClient)\<lparr>ContentLength := word_of_nat (length ''{}''),
                                         Body := Some (NopCloser ''{}'')\<rparr> \<and>
   transport_Do ex_refused ex_Request = Inl (Error ''connection refused'') \<and>
   fst (httpClient_do ex_httpClient ex_refused) =
     (- 1, 2000, Some (Error ''connection refused'')) \<and>
   transport_Do ex_created ex_Request =
     Inr \<lparr> StatusCode = 201, resp_Body = NopCloser ''created'' \<rparr> \<and>
   fst (httpClient_do ex_httpClient ex_created) = (201, 1500, None) \<and>
   TransportDo ex_fh_Request \<in> set (snd (fasthttpClient_do ex_fasthttpClient ex_refused_fh)) \<and>
   TransportDo ex_Request \<in> set (snd (httpClient_do ex_httpClient ex_created)) \<and>
   fc_body ex_upload_fasthttpClient = None \<and>
   fc_bodProd ex_upload_fasthttpClient () = Inr (NopCloser ''{}'') \<and>
   fst (fasthttpClient_do ex_upload_fasthttpClient ex_refused_fh) =
     (- 1, 2000, Some (Error ''connection refused'')) \<and>
   hc_body ex_upload_httpClient = None \<and>
   hc_bodProd ex_upload_httpClient () = Inr (NopCloser ''{}'') \<and>
   fst (httpClient_do ex_upload_httpClient ex_refused) =
     (- 1, 2000, Some (Error ''connection refused''))"
proof -
  have a: "fc_body ex_fasthttpClient = Some ''{}'' \<and>
      ex_fh_Request = (fasthttpClient_prepare ex_fasthttpClient)\<lparr>fh_Body := BodyString ''{}''\<rparr>"
    using ex_fh_prepare by (simp add: ex_fasthttpClient_def)
  have b: "hc_body ex_httpClient = Some ''{}'' \<and>
      ex_Request =
        (httpClient_prepare ex_httpClient)\<lparr>ContentLength := word_of_nat (length ''{}''),
                                            Body := Some (NopCloser ''{}'')\<rparr>"
    using ex_prepare by (simp add: ex_httpClient_def)
  have t: "transport_Do ex_refused_fh ex_fh_Request = Inl (Error ''connection refused'')"
      "transport_Do ex_created_fh ex_fh_Request = Inr \<lparr> fh_StatusCode = 201 \<rparr>"
      "transport_Do ex_refused ex_Request = Inl (Error ''connection refused'')"
      "transport_Do ex_created ex_Request =
         Inr \<lparr> StatusCode = 201, resp_Body = NopCloser ''created'' \<rparr>"
    by (simp_all add: ex_refused_fh_def ex_created_fh_def ex_refused_def ex_created_def)
  have u: "usTaken_of (since_ns ex_refused_fh) = 2000" "usTaken_of (since_ns ex_created_fh) = 1500"
      "usTaken_of (since_ns ex_refused) = 2000" "usTaken_of (since_ns ex_created) = 1500"
    by (simp_all add: ex_refused_fh_def ex_created_fh_def ex_refused_def ex_created_def
        usTaken_of_def signed_divide_int_def)
  have c: "io_Copy_Discard (NopCloser ''created'') = None"
      "ReadCloser_Close (NopCloser ''created'') = None"
    by (simp_all add: io_Copy_Discard_def ReadCloser_Close_def NopCloser_def)
  have s: "fc_body ex_upload_fasthttpClient = None \<and>
      fc_bodProd ex_upload_fasthttpClient () = Inr (NopCloser ''{}'')"
      "hc_body ex_upload_httpClient = None \<and>
      hc_bodProd ex_upload_httpClient () = Inr (NopCloser ''{}'')"
    by (simp_all add: ex_upload_fasthttpClient_def ex_upload_httpClient_def)
  have r: "transport_Do ex_refused_fh req = Inl (Error ''connection refused'')"
      "transport_Do ex_refused req' = Inl (Error ''connection refused'')" for req req'
    by (simp_all add: ex_refused_fh_def ex_refused_def)
  have 1: "fst (fasthttpClient_do ex_upload_fasthttpClient ex_refused_fh) =
      (- 1, 2000, Some (Error ''connection refused''))"
    using s(1) r(1) u(1)
      C1_transport_outcome [of ex_upload_fasthttpClient _
        "(fasthttpClient_prepare ex_upload_fasthttpClient)\<lparr>fh_Body := BodyStream (NopCloser ''{}'') (- 1)\<rparr>"
        "NopCloser ''{}''" ex_refused_fh]
    by simp
  have 2: "fst (httpClient_do ex_upload_httpClient ex_refused) =
      (- 1, 2000, Some (Error ''connection refused''))"
    using s(2) r(2) u(3)
      C1_transport_outcome [of _ _ _ _ _ ex_upload_httpClient _
        "(httpClient_prepare ex_upload_httpClient)\<lparr>Body := Some (NopCloser ''{}'')\<rparr>"
        "NopCloser ''{}''" ex_refused]
    by simp
  show ?thesis
    using a b t u c s 1 2
      C1_transport_outcome [of ex_fasthttpClient "''{}''" ex_fh_Request _ ex_refused_fh
        ex_httpClient "''{}''" ex_Request _ ex_created]
      C1_transport_outcome [of ex_fasthttpClient "''{}''" ex_fh_Request _ ex_created_fh
        ex_httpClient "''{}''" ex_Request _ ex_refused]
    by simp
qed

section \<open>Failure of the body factory\<close>

text \<open>
  C2. In both clients, when there is no fixed body and the body factory returns an
  error, \<open>do\<close> returns \<open>(0, 0, that error)\<close> and hands no request to the transport.
\<close>

theorem C2_body_factory_failure:
  "(fc_body ca = None \<and> fc_bodProd ca () = Inl ea \<longrightarrow>
      fst (fasthttpClient_do ca wa) = (0, 0, Some ea) \<and>
      (\<forall>req. TransportDo req \<notin> set (snd (fasthttpClient_do ca wa)))) \<and>
   (hc_body cb = None \<and> hc_bodProd cb () = Inl eb \<longrightarrow>
      fst (httpClient_do cb wb) = (0, 0, Some eb) \<and>
      (\<forall>req. TransportDo req \<notin> set (snd (httpClient_do cb wb))))"
  by (simp add: fasthttpClient_do_def httpClient_do_def)

theorem C2_body_factory_failure_witness:
  "fc_body ex_streaming_fasthttpClient = None \<and>
   fc_bodProd ex_streaming_fasthttpClient () = Inl (Error ''no stream'') \<and>
   fst (fasthttpClient_do ex_streaming_fasthttpClient ex_created_fh) = (0, 0, Some (Error ''no stream'')) \<and>
   (\<forall>req. TransportDo req \<notin> set (snd (fasthttpClient_do ex_streaming_fasthttpClient ex_created_fh))) \<and>
   hc_body ex_streaming_httpClient = None \<and>
   hc_bodProd ex_streaming_httpClient () = Inl (Error ''no stream'') \<and>
   fst (httpClient_do ex_streaming_httpClient ex_created) = (0, 0, Some (Error ''no stream'')) \<and>
   (\<forall>req. TransportDo req \<notin> set (snd (httpClient_do ex_streaming_httpClient ex_created)))"
proof -
  have a: "fc_body ex_streaming_fasthttpClient = None \<and>
      fc_bodProd ex_streaming_fasthttpClient () = Inl (Error ''no stream'')"
    by (simp add: ex_streaming_fasthttpClient_def ex_fasthttpClient_def)
  have b: "hc_body ex_streaming_httpClient = None \<and>
      hc_bodProd ex_streaming_httpClient () = Inl (Error ''no stream'')"
    by (simp add: ex_streaming_httpClient_def ex_httpClient_def)
  show ?thesis
    using a b
      C2_body_factory_failure [of ex_streaming_fasthttpClient "Error ''no stream''" ex_created_fh
        ex_streaming_httpClient "Error ''no stream''" ex_created]
    by blast
qed

section \<open>The pooled pair of the fasthttp client\<close>

text \<open>
  C3. The claim is that \<open>fasthttpClient_do\<close> gives the request and the response it
  took from the pool back on every path. On the path where the body factory fails it
  does not: the call below takes both, calls the factory and returns, and its log
  holds no release.
\<close>

theorem C3_factory_failure_keeps_pair:
  "fasthttpClient_do ex_streaming_fasthttpClient ex_created_fh =
     ((0, 0, Some (Error ''no stream'')), [AcquireRequest, AcquireResponse, BodProdCall])"
  by (simp add: fasthttpClient_do_def ex_streaming_fasthttpClient_def ex_fasthttpClient_def)

text \<open>On every path, the pair is released exactly when a request was handed to the
  transport, that is, on every path but the one above.\<close>

lemma fasthttp_do_releases:
  "ReleaseRequest \<in> set (snd (fasthttpClient_do c w)) \<and>
   ReleaseResponse \<in> set (snd (fasthttpClient_do c w)) \<longleftrightarrow>
     \<not> (fc_body c = None \<and> (\<exists>e. fc_bodProd c () = Inl e))"
  by (auto simp: fasthttpClient_do_def fasthttpClient_fire_def Let_def
      split: option.splits sum.splits)

section \<open>The response body of the net/http client\<close>

lemma ex_do_http:
  assumes "transport_Do w ex_Request = Inr resp"
  shows "httpClient_do ex_httpClient w =
     ((StatusCode resp, usTaken_of (since_ns w),
       (if ReadCloser_Close (resp_Body resp) \<noteq> None then ReadCloser_Close (resp_Body resp)
        else io_Copy_Discard (resp_Body resp))),
      [TransportDo ex_Request, BodyDrain, BodyClose])"
proof -
  have b: "hc_body ex_httpClient = Some ''{}''"
    by (simp add: ex_httpClient_def)
  have "httpClient_do ex_httpClient w = httpClient_fire w ex_Request []"
    using ex_prepare by (simp add: httpClient_do_def b)
  then show ?thesis
    using assms by (auto simp: httpClient_fire_def Let_def)
qed

text \<open>
  C8. In \<open>httpClient_do\<close>, when the transport answers, the log of the call ends with
  the request handed over, the draining of the body and then its closing; the code
  returned is the status of the response, and when draining or closing fails the
  error returned is not \<^verbatim>\<open>nil\<close>: it is the error of closing if there is one and
  the error of draining otherwise.
\<close>

theorem C8_drain_then_close:
  "httpClient_do c w = ((code, us, err), log) \<and> TransportDo req \<in> set log \<and>
   transport_Do w req = Inr resp \<longrightarrow>
     code = StatusCode resp \<and>
     (\<exists>pre. log = pre @ [TransportDo req, BodyDrain, BodyClose]) \<and>
     (io_Copy_Discard (resp_Body resp) \<noteq> None \<or> ReadCloser_Close (resp_Body resp) \<noteq> None
        \<longrightarrow> err \<noteq> None) \<and>
     err = (if ReadCloser_Close (resp_Body resp) \<noteq> None then ReadCloser_Close (resp_Body resp)
            else io_Copy_Discard (resp_Body resp))"
proof (intro impI)
  assume a: "httpClient_do c w = ((code, us, err), log) \<and> TransportDo req \<in> set log \<and>
    transport_Do w req = Inr resp"
  then have f: "((code, us, err), log) =
      httpClient_fire w req (takeWhile (\<lambda>e. e \<noteq> TransportDo req) log)"
    using http_do_submits by blast
  have r: "transport_Do w req = Inr resp" using a by simp
  show "code = StatusCode resp \<and>
     (\<exists>pre. log = pre @ [TransportDo req, BodyDrain, BodyClose]) \<and>
     (io_Copy_Discard (resp_Body resp) \<noteq> None \<or> ReadCloser_Close (resp_Body resp) \<noteq> None
        \<longrightarrow> err \<noteq> None) \<and>
     err = (if ReadCloser_Close (resp_Body resp) \<noteq> None then ReadCloser_Close (resp_Body resp)
            else io_Copy_Discard (resp_Body resp))"
    using f r by (auto simp: httpClient_fire_def Let_def)
qed

theorem C8_drain_then_close_witness:
  "httpClient_do ex_httpClient ex_truncated =
     ((200, 1500, Some (Error ''unexpected EOF'')), [TransportDo ex_Request, BodyDrain, BodyClose]) \<and>
   transport_Do ex_truncated ex_Request =
     Inr \<lparr> StatusCode = 200,
           resp_Body = \<lparr> rc_data = ''par'', rc_read_err = Some (Error ''unexpected EOF''),
                         rc_close_err = None \<rparr> \<rparr> \<and>
   (\<exists>pre. [TransportDo ex_Request, BodyDrain, BodyClose] = pre @ [TransportDo ex_Request, BodyDrain, BodyClose])"
proof -
  have t: "transport_Do ex_truncated ex_Request =
     Inr \<lparr> StatusCode = 200,
           resp_Body = \<lparr> rc_data = ''par'', rc_read_err = Some (Error ''unexpected EOF''),
                         rc_close_err = None \<rparr> \<rparr>"
    by (simp add: ex_truncated_def)
  have d: "httpClient_do ex_httpClient ex_truncated =
     ((200, 1500, Some (Error ''unexpected EOF'')), [TransportDo ex_Request, BodyDrain, BodyClose])"
    using ex_do_http [OF t]
    by (simp add: io_Copy_Discard_def ReadCloser_Close_def ex_truncated_def usTaken_of_def
        signed_divide_int_def)
  show ?thesis
    using d t C8_drain_then_close [of ex_httpClient ex_truncated 200 1500
        "Some (Error ''unexpected EOF'')" "[TransportDo ex_Request, BodyDrain, BodyClose]"
        ex_Request]
    by simp
qed

text \<open>
  C10. In \<open>httpClient_do\<close>, when the transport answers and both draining and closing
  the response body fail, the error returned is the one of closing; the one of
  draining is dropped.
\<close>

theorem C10_close_error_overwrites_drain_error:
  assumes "httpClient_do c w = ((code, us, err), log)"
    and "TransportDo req \<in> set log"
    and "transport_Do w req = Inr resp"
    and "io_Copy_Discard (resp_Body resp) = Some berr"
    and "ReadCloser_Close (resp_Body resp) = Some cerr"
  shows "err = Some cerr"
  using assms
  by (auto simp: httpClient_do_def httpClient_fire_def Let_def
      split: option.splits sum.splits)



theorem C10_close_error_overwrites_drain_error_witness:
  "httpClient_do ex_httpClient ex_broken =
     ((200, 1500, Some (Error ''close failed'')), [TransportDo ex_Request, BodyDrain, BodyClose]) \<and>
   transport_Do ex_broken ex_Request = Inr \<lparr> StatusCode = 200, resp_Body = ex_broken_body \<rparr> \<and>
   io_Copy_Discard ex_broken_body = Some (Error ''unexpected EOF'') \<and>
   ReadCloser_Close ex_broken_body = Some (Error ''close failed'')"
proof -
  have t: "transport_Do ex_broken ex_Request = Inr \<lparr> StatusCode = 200, resp_Body = ex_broken_body \<rparr>"
    by (simp add: ex_broken_def)
  have b: "io_Copy_Discard (resp_Body \<lparr> StatusCode = 200, resp_Body = ex_broken_body \<rparr>) =
      Some (Error ''unexpected EOF'')"
    by (simp add: io_Copy_Discard_def ex_broken_body_def)
  have c: "ReadCloser_Close (resp_Body \<lparr> StatusCode = 200, resp_Body = ex_broken_body \<rparr>) =
      Some (Error ''close failed'')"
    by (simp add: ReadCloser_Close_def ex_broken_body_def)
  obtain err where d: "httpClient_do ex_httpClient ex_broken =
      ((200, 1500, err), [TransportDo ex_Request, BodyDrain, BodyClose])"
    using ex_do_http [OF t]
    by (simp add: ex_broken_def usTaken_of_def signed_divide_int_def)
  have "err = Some (Error ''close failed'')"
    using C10_close_error_overwrites_drain_error [OF d _ t b c] by simp
  then show ?thesis
    using d t b c by simp
qed

section \<open>Header adapters\<close>

lemma last_value_Nil: "last_value f [] k = None"
  by (simp add: last_value_def)

lemma last_value_snoc:
  "last_value f (hs @ [h]) k = (if f (key h) = k then Some (val h) else last_value f hs k)"
  by (simp add: last_value_def Let_def)

text \<open>The loop of \<open>headersToFastHTTPHeaders\<close>, from any header it starts on: the three
  fields, the cookies, and the entries of the other names.\<close>

lemma foldl_Set_host:
  "rh_host (foldl (\<lambda>res hdr. RequestHeader_Set norm (key hdr) (val hdr) res) h0 hs) =
     (case last_value norm hs ''Host'' of None \<Rightarrow> rh_host h0 | Some v \<Rightarrow> v)"
  by (induction hs rule: rev_induct)
    (simp_all add: last_value_Nil last_value_snoc RequestHeader_Set_def Let_def)

lemma foldl_Set_contentType:
  "rh_contentType (foldl (\<lambda>res hdr. RequestHeader_Set norm (key hdr) (val hdr) res) h0 hs) =
     (case last_value norm hs ''Content-Type'' of None \<Rightarrow> rh_contentType h0 | Some v \<Rightarrow> v)"
  by (induction hs rule: rev_induct)
    (simp_all add: last_value_Nil last_value_snoc RequestHeader_Set_def Let_def)

lemma foldl_Set_userAgent:
  "rh_userAgent (foldl (\<lambda>res hdr. RequestHeader_Set norm (key hdr) (val hdr) res) h0 hs) =
     (case last_value norm hs ''User-Agent'' of None \<Rightarrow> rh_userAgent h0 | Some v \<Rightarrow> v)"
  by (induction hs rule: rev_induct)
    (simp_all add: last_value_Nil last_value_snoc RequestHeader_Set_def Let_def)

lemma foldl_Set_cookies:
  "rh_cookies (foldl (\<lambda>res hdr. RequestHeader_Set norm (key hdr) (val hdr) res) h0 hs) =
     rh_cookies h0 @ all_values norm hs ''Cookie''"
  by (induction hs rule: rev_induct)
    (simp_all add: all_values_def RequestHeader_Set_def Let_def)

lemma Set_other:
  assumes "k \<notin> {''Host'', ''Content-Type'', ''User-Agent'', ''Cookie'', ''Content-Length'',
                 ''Connection'', ''Transfer-Encoding''}"
  shows "rh_h (RequestHeader_Set norm k' v h) k = (if norm k' = k then Some v else rh_h h k)"
  using assms by (auto simp: RequestHeader_Set_def Let_def)

lemma foldl_Set_other:
  assumes "k \<notin> {''Host'', ''Content-Type'', ''User-Agent'', ''Cookie'', ''Content-Length'',
                 ''Connection'', ''Transfer-Encoding''}"
  shows "rh_h (foldl (\<lambda>res hdr. RequestHeader_Set norm (key hdr) (val hdr) res) h0 hs) k =
     (case last_value norm hs k of None \<Rightarrow> rh_h h0 k | Some v \<Rightarrow> Some v)"
proof (induction hs rule: rev_induct)
  case Nil
  show ?case by (simp add: last_value_Nil)
next
  case (snoc h hs)
  show ?case
    using snoc.IH by (simp add: last_value_snoc Set_other [OF assms])
qed

lemma Set_transfer:
  "rh_h (RequestHeader_Set norm k' v h) ''Transfer-Encoding'' = rh_h h ''Transfer-Encoding''"
  by (simp add: RequestHeader_Set_def Let_def)

lemma foldl_Set_transfer:
  "rh_h (foldl (\<lambda>res hdr. RequestHeader_Set norm (key hdr) (val hdr) res) h0 hs)
     ''Transfer-Encoding'' = rh_h h0 ''Transfer-Encoding''"
  by (induction hs rule: rev_induct) (simp_all add: Set_transfer)

lemma foldl_assign:
  "foldl (\<lambda>hs hdr. hs(key hdr \<mapsto> [val hdr])) m hs k =
     (case last_value (\<lambda>k. k) hs k of None \<Rightarrow> m k | Some v \<Rightarrow> Some [v])"
proof (induction hs rule: rev_induct)
  case Nil
  show ?case by (simp add: last_value_Nil)
next
  case (snoc h hs)
  show ?case
  proof (cases "key h = k")
    case True
    then show ?thesis
      by (simp add: last_value_snoc)
  next
    case False
    then have ne: "k \<noteq> key h" by blast
    have "foldl (\<lambda>hs hdr. hs(key hdr \<mapsto> [val hdr])) m (hs @ [h]) k =
        foldl (\<lambda>hs hdr. hs(key hdr \<mapsto> [val hdr])) m hs k"
      using ne by (simp add: fun_upd_other del: fun_upd_apply)
    then show ?thesis
      using False snoc.IH by (simp add: last_value_snoc del: fun_upd_apply)
  qed
qed

lemma fasthttp_headers_Host:
  "hs \<noteq> [] \<Longrightarrow> \<exists>h. headersToFastHTTPHeaders norm hs = Some h \<and>
     rh_host h = (case last_value norm hs ''Host'' of None \<Rightarrow> [] | Some v \<Rightarrow> v)"
  by (simp add: headersToFastHTTPHeaders_def foldl_Set_host RequestHeader_new_def
      split: option.splits)

lemma http_headers_lookup:
  "headersToHTTPHeaders hs k = map_option (\<lambda>v. [v]) (last_value (\<lambda>k. k) hs k)"
  by (simp add: headersToHTTPHeaders_def foldl_assign last_value_Nil split: option.splits)

text \<open>
  C9, as amended. The adapters write every entry of the header list, in order. The
  net/http header, a Go map, holds for each name the one-element list of the value of
  the last entry with exactly that name. In the fasthttp header names are normalised by
  the transport, and the value written last is the one in effect for \<open>Host\<close>,
  \<open>Content-Type\<close> and \<open>User-Agent\<close> and for every name that the transport does not
  manage itself; the values of all \<open>Cookie\<close> entries are in effect together, in order,
  and a \<open>Transfer-Encoding\<close> entry leaves nothing. (\<open>Content-Length\<close> and \<open>Connection\<close>
  are the transport's too; nothing is said of them.)
\<close>

theorem C9_last_write_wins:
  "(hs \<noteq> [] \<longrightarrow>
      (\<exists>h. headersToFastHTTPHeaders norm hs = Some h \<and>
           rh_host h = (case last_value norm hs ''Host'' of None \<Rightarrow> [] | Some v \<Rightarrow> v) \<and>
           rh_contentType h =
             (case last_value norm hs ''Content-Type'' of None \<Rightarrow> [] | Some v \<Rightarrow> v) \<and>
           rh_userAgent h =
             (case last_value norm hs ''User-Agent'' of None \<Rightarrow> [] | Some v \<Rightarrow> v) \<and>
           rh_cookies h = all_values norm hs ''Cookie'' \<and>
           rh_h h ''Transfer-Encoding'' = None \<and>
           (\<forall>k. k \<notin> {''Host'', ''Content-Type'', ''User-Agent'', ''Cookie'', ''Content-Length'',
                      ''Connection'', ''Transfer-Encoding''} \<longrightarrow>
                rh_h h k = last_value norm hs k))) \<and>
   (\<forall>k. headersToHTTPHeaders hs k = map_option (\<lambda>v. [v]) (last_value (\<lambda>k. k) hs k))"
proof (intro conjI impI allI)
  assume n: "hs \<noteq> []"
  let ?h = "foldl (\<lambda>res hdr. RequestHeader_Set norm (key hdr) (val hdr) res) RequestHeader_new hs"
  have s: "headersToFastHTTPHeaders norm hs = Some ?h"
    using n by (simp add: headersToFastHTTPHeaders_def)
  have 1: "rh_host ?h = (case last_value norm hs ''Host'' of None \<Rightarrow> [] | Some v \<Rightarrow> v)"
    by (simp add: foldl_Set_host RequestHeader_new_def split: option.splits)
  have 2: "rh_contentType ?h =
      (case last_value norm hs ''Content-Type'' of None \<Rightarrow> [] | Some v \<Rightarrow> v)"
    by (simp add: foldl_Set_contentType RequestHeader_new_def split: option.splits)
  have 3: "rh_userAgent ?h =
      (case last_value norm hs ''User-Agent'' of None \<Rightarrow> [] | Some v \<Rightarrow> v)"
    by (simp add: foldl_Set_userAgent RequestHeader_new_def split: option.splits)
  have 4: "rh_cookies ?h = all_values norm hs ''Cookie''"
    by (simp add: foldl_Set_cookies RequestHeader_new_def)
  have 5: "rh_h ?h ''Transfer-Encoding'' = None"
    by (simp add: foldl_Set_transfer RequestHeader_new_def)
  have 6: "rh_h ?h k = last_value norm hs k"
    if "k \<notin> {''Host'', ''Content-Type'', ''User-Agent'', ''Cookie'', ''Content-Length'',
              ''Connection'', ''Transfer-Encoding''}" for k
    using foldl_Set_other [OF that, of norm RequestHeader_new hs]
    by (simp add: RequestHeader_new_def split: option.splits)
  show "\<exists>h. headersToFastHTTPHeaders norm hs = Some h \<and>
           rh_host h = (case last_value norm hs ''Host'' of None \<Rightarrow> [] | Some v \<Rightarrow> v) \<and>
           rh_contentType h =
             (case last_value norm hs ''Content-Type'' of None \<Rightarrow> [] | Some v \<Rightarrow> v) \<and>
           rh_userAgent h =
             (case last_value norm hs ''User-Agent'' of None \<Rightarrow> [] | Some v \<Rightarrow> v) \<and>
           rh_cookies h = all_values norm hs ''Cookie'' \<and>
           rh_h h ''Transfer-Encoding'' = None \<and>
           (\<forall>k. k \<notin> {''Host'', ''Content-Type'', ''User-Agent'', ''Cookie'', ''Content-Length'',
                      ''Connection'', ''Transfer-Encoding''} \<longrightarrow>
                rh_h h k = last_value norm hs k)"
    using s 1 2 3 4 5 6 by blast
next
  fix k
  show "headersToHTTPHeaders hs k = map_option (\<lambda>v. [v]) (last_value (\<lambda>k. k) hs k)"
    by (rule http_headers_lookup)
qed

lemma ex_duplicates_last:
  "last_value (\<lambda>k. k) ex_duplicates ''Accept'' = Some ''application/json''"
  by (simp add: last_value_def ex_duplicates_def)

text \<open>
  C9, as stated, fails for the fasthttp adapter on the names the transport manages: of
  two \<open>Cookie\<close> entries both values are in effect, not the last one alone, and of a
  \<open>Transfer-Encoding\<close> entry none is.
\<close>

theorem C9_managed_names_counterexample:
  "last_value (\<lambda>k. k) ex_cookies ''Cookie'' = Some ''b=2'' \<and>
   headersToFastHTTPHeaders (\<lambda>k. k) ex_cookies =
     Some (RequestHeader_new\<lparr>rh_cookies := [''a=1'', ''b=2'']\<rparr>) \<and>
   last_value (\<lambda>k. k) ex_transfer ''Transfer-Encoding'' = Some ''chunked'' \<and>
   headersToFastHTTPHeaders (\<lambda>k. k) ex_transfer = Some RequestHeader_new"
  by (simp add: last_value_def ex_cookies_def ex_transfer_def headersToFastHTTPHeaders_def
      RequestHeader_Set_def RequestHeader_new_def)

theorem C9_last_write_wins_witness:
  "ex_duplicates \<noteq> [] \<and>
   ''Accept'' \<notin> {''Host'', ''Content-Type'', ''User-Agent'', ''Cookie'', ''Content-Length'',
                  ''Connection'', ''Transfer-Encoding''} \<and>
   (\<exists>h. headersToFastHTTPHeaders (\<lambda>k. k) ex_duplicates = Some h \<and>
        rh_h h ''Accept'' = Some ''application/json'') \<and>
   headersToHTTPHeaders ex_duplicates ''Accept'' = Some [''application/json'']"
proof -
  have n: "ex_duplicates \<noteq> []" by (simp add: ex_duplicates_def)
  have a: "''Accept'' \<notin> {''Host'', ''Content-Type'', ''User-Agent'', ''Cookie'', ''Content-Length'',
                  ''Connection'', ''Transfer-Encoding''}"
    by simp
  note c = C9_last_write_wins [of ex_duplicates "\<lambda>k. k"]
  from c [THEN conjunct1, rule_format, OF n]
  obtain h where h: "headersToFastHTTPHeaders (\<lambda>k. k) ex_duplicates = Some h"
    and o: "\<forall>k. k \<notin> {''Host'', ''Content-Type'', ''User-Agent'', ''Cookie'', ''Content-Length'',
                      ''Connection'', ''Transfer-Encoding''} \<longrightarrow>
                rh_h h k = last_value (\<lambda>k. k) ex_duplicates k"
    by (elim exE conjE)
  have 1: "rh_h h ''Accept'' = Some ''application/json''"
    using o [rule_format, OF a] ex_duplicates_last by (simp only:)
  have 2: "headersToHTTPHeaders ex_duplicates ''Accept'' = Some [''application/json'']"
    using c [THEN conjunct2, rule_format, of "''Accept''"] ex_duplicates_last
    by (simp only: option.map)
  have 3: "\<exists>h. headersToFastHTTPHeaders (\<lambda>k. k) ex_duplicates = Some h \<and>
        rh_h h ''Accept'' = Some ''application/json''"
    using h 1 by (intro exI conjI)
  show ?thesis
    using n a 2 3 by (intro conjI)
qed

section \<open>The Host header\<close>

lemma fasthttp_do_request:
  assumes "TransportDo req \<in> set (snd (fasthttpClient_do c w))"
  shows "fh_Header req = fh_Header (fasthttpClient_prepare c)"
  using assms
  by (auto simp: fasthttpClient_do_def fasthttpClient_fire_def Let_def
      split: option.splits sum.splits)

lemma http_do_request:
  assumes "TransportDo req \<in> set (snd (httpClient_do c w))"
  shows "Host req = Host (httpClient_prepare c) \<and> URL req = URL (httpClient_prepare c)"
  using assms
  by (auto simp: httpClient_do_def httpClient_fire_def Let_def
      split: option.splits sum.splits)

lemma fasthttp_prepare_Host:
  "RequestHeader_Host (fh_Header (fasthttpClient_prepare c)) =
     (case fc_headers c of
        None \<Rightarrow> fc_host c
      | Some h \<Rightarrow> if RequestHeader_Host h = [] then fc_host c else RequestHeader_Host h)"
  by (simp add: fasthttpClient_prepare_def fasthttp_AcquireRequest_def Let_def
      RequestHeader_Host_def RequestHeader_SetHost_def RequestHeader_new_def split: option.splits)

lemma http_prepare_Host:
  "Host (httpClient_prepare c) = Header_Get (hc_headers c) ''Host'' \<and>
   URL (httpClient_prepare c) = hc_url c"
  by (simp add: httpClient_prepare_def Let_def)

lemma fasthttp_template_Host:
  "(case headersToFastHTTPHeaders norm hs of None \<Rightarrow> [] | Some h \<Rightarrow> RequestHeader_Host h) =
     (case last_value norm hs ''Host'' of None \<Rightarrow> [] | Some v \<Rightarrow> v)"
proof (cases "hs = []")
  case True
  then show ?thesis
    by (simp add: headersToFastHTTPHeaders_def last_value_Nil)
next
  case False
  then obtain h where "headersToFastHTTPHeaders norm hs = Some h"
    and "rh_host h = (case last_value norm hs ''Host'' of None \<Rightarrow> [] | Some v \<Rightarrow> v)"
    using fasthttp_headers_Host by blast
  then show ?thesis
    by (simp add: RequestHeader_Host_def)
qed

lemma http_template_Host:
  "Header_Get (headersToHTTPHeaders hs) ''Host'' =
     (case last_value (\<lambda>k. k) hs ''Host'' of None \<Rightarrow> [] | Some v \<Rightarrow> v)"
  by (simp add: Header_Get_def http_headers_lookup split: option.splits)

lemma fasthttp_new_do_Host:
  assumes "newFastHTTPClient P norm opts = Return c"
    and "TransportDo req \<in> set (snd (fasthttpClient_do c w))"
  shows "\<exists>u. P (url opts) = Inr u \<and>
     RequestHeader_Host (fh_Header req) =
       (case last_value norm (headers opts) ''Host'' of
          None \<Rightarrow> u_Host u
        | Some v \<Rightarrow> if v = [] then u_Host u else v)"
proof -
  from assms(1) obtain u where u: "P (url opts) = Inr u"
    and h: "fc_headers c = headersToFastHTTPHeaders norm (headers opts)"
    and o: "fc_host c = u_Host u"
    by (auto simp: newFastHTTPClient_def split: sum.splits)
  have "RequestHeader_Host (fh_Header req) =
      (case fc_headers c of
         None \<Rightarrow> fc_host c
       | Some h \<Rightarrow> if RequestHeader_Host h = [] then fc_host c else RequestHeader_Host h)"
    using fasthttp_do_request [OF assms(2)] fasthttp_prepare_Host by simp
  then have "RequestHeader_Host (fh_Header req) =
      (case last_value norm (headers opts) ''Host'' of
         None \<Rightarrow> u_Host u
       | Some v \<Rightarrow> if v = [] then u_Host u else v)"
    using fasthttp_template_Host [of norm "headers opts"] h o
    by (auto split: option.splits)
  with u show ?thesis by blast
qed

lemma http_new_do_Host:
  assumes "newHTTPClient P U opts = Return c"
    and "TransportDo req \<in> set (snd (httpClient_do c w))"
  shows "\<exists>u. P (url opts) = Inr u \<and> URL req = u \<and>
     Host req = (case last_value (\<lambda>k. k) (headers opts) ''Host'' of None \<Rightarrow> [] | Some v \<Rightarrow> v)"
proof -
  from assms(1) obtain u where u: "P (url opts) = Inr u"
    and h: "hc_headers c = headersToHTTPHeaders (headers opts)"
    and o: "hc_url c = u"
    by (auto simp: newHTTPClient_def Let_def split: sum.splits)
  show ?thesis
    using http_do_request [OF assms(2)] http_prepare_Host [of c] http_template_Host [of "headers opts"] u h o
    by simp
qed

text \<open>
  C5, as amended. For every request \<open>do\<close> hands to the transport, when the last \<open>Host\<close>
  header of the configured list has a value that is not empty, that value is the host of
  the request: the \<open>Host\<close> header of the fasthttp request, and the field \<^verbatim>\<open>Host\<close> of
  the net/http request, which takes precedence over the host of the URL. A \<open>Host\<close>
  header is, for the fasthttp client, an entry whose name the transport normalises to
  \<open>Host\<close>, and for the net/http client an entry spelled exactly \<open>Host\<close>; nothing is said
  of the net/http client for other spellings. In the fasthttp client, when the list has
  no \<open>Host\<close> header, or its last one has an empty value, the request carries the host
  parsed from the target URL.
\<close>

theorem C5_explicit_host_header:
  "(newFastHTTPClient P norm opts = Return ca \<and>
    TransportDo reqa \<in> set (snd (fasthttpClient_do ca wa)) \<longrightarrow>
      (\<forall>v. last_value norm (headers opts) ''Host'' = Some v \<and> v \<noteq> [] \<longrightarrow>
           RequestHeader_Host (fh_Header reqa) = v) \<and>
      (last_value norm (headers opts) ''Host'' = None \<or>
       last_value norm (headers opts) ''Host'' = Some [] \<longrightarrow>
           (\<exists>u. P (url opts) = Inr u \<and> RequestHeader_Host (fh_Header reqa) = u_Host u))) \<and>
   (newHTTPClient P U opts = Return cb \<and>
    TransportDo reqb \<in> set (snd (httpClient_do cb wb)) \<longrightarrow>
      (\<forall>v. last_value (\<lambda>k. k) (headers opts) ''Host'' = Some v \<and> v \<noteq> [] \<longrightarrow> Host reqb = v))"
proof (intro conjI impI)
  assume a: "newFastHTTPClient P norm opts = Return ca \<and>
    TransportDo reqa \<in> set (snd (fasthttpClient_do ca wa))"
  from a obtain u where u: "P (url opts) = Inr u"
    and r: "RequestHeader_Host (fh_Header reqa) =
       (case last_value norm (headers opts) ''Host'' of
          None \<Rightarrow> u_Host u
        | Some v \<Rightarrow> if v = [] then u_Host u else v)"
    using fasthttp_new_do_Host by blast
  show "\<forall>v. last_value norm (headers opts) ''Host'' = Some v \<and> v \<noteq> [] \<longrightarrow>
           RequestHeader_Host (fh_Header reqa) = v"
    using r by simp
  show "\<exists>u. P (url opts) = Inr u \<and> RequestHeader_Host (fh_Header reqa) = u_Host u"
    if "last_value norm (headers opts) ''Host'' = None \<or>
        last_value norm (headers opts) ''Host'' = Some []"
    using that u r by auto
next
  assume b: "newHTTPClient P U opts = Return cb \<and>
    TransportDo reqb \<in> set (snd (httpClient_do cb wb))"
  from b obtain u where u: "P (url opts) = Inr u" "URL reqb = u"
    and r: "Host reqb =
      (case last_value (\<lambda>k. k) (headers opts) ''Host'' of None \<Rightarrow> [] | Some v \<Rightarrow> v)"
    using http_new_do_Host by blast
  show "\<forall>v. last_value (\<lambda>k. k) (headers opts) ''Host'' = Some v \<and> v \<noteq> [] \<longrightarrow> Host reqb = v"
    using r by simp
qed

lemma ex_new_with_headers:
  assumes "hs \<noteq> []"
  shows "newFastHTTPClient ex_url_Parse (\<lambda>k. k) (ex_opts\<lparr>headers := hs\<rparr>) =
     Return (ex_fasthttpClient\<lparr>fc_headers :=
       Some (foldl (\<lambda>res hdr. RequestHeader_Set (\<lambda>k. k) (key hdr) (val hdr) res)
               RequestHeader_new hs)\<rparr>)"
  using assms
  by (simp add: newFastHTTPClient_def ex_url_Parse_def ex_opts_def ex_fasthttpClient_def
      newFastHTTPClient_dial_def headersToFastHTTPHeaders_def)

lemma ex_new_emptyhost:
  "newFastHTTPClient ex_url_Parse (\<lambda>k. k) ex_emptyhost_opts = Return ex_emptyhost_fasthttpClient"
  unfolding ex_emptyhost_opts_def ex_emptyhost_fasthttpClient_def
  by (simp add: ex_new_with_headers RequestHeader_Set_def RequestHeader_new_def)

lemma ex_new_vhost:
  "newFastHTTPClient ex_url_Parse (\<lambda>k. k) ex_vhost_opts = Return ex_vhost_fasthttpClient"
  unfolding ex_vhost_opts_def ex_vhost_fasthttpClient_def
  by (simp add: ex_new_with_headers RequestHeader_Set_def RequestHeader_new_def)

lemma ex_new_lowerhost:
  "newHTTPClient ex_url_Parse ex_URL_Parse ex_lowerhost_opts = Return ex_lowerhost_httpClient"
  by (simp add: newHTTPClient_def ex_url_Parse_def ex_opts_def ex_lowerhost_opts_def
      ex_httpClient_def ex_lowerhost_httpClient_def headersToHTTPHeaders_def)

lemma ex_lowerhost_prepare:
  "(httpClient_prepare ex_lowerhost_httpClient)\<lparr>ContentLength := 2, Body := Some (NopCloser ''{}'')\<rparr> =
     ex_lowerhost_Request"
  by (simp add: httpClient_prepare_def ex_lowerhost_httpClient_def ex_httpClient_def
      ex_lowerhost_Request_def ex_Request_def Header_Get_def)

lemma ex_do_lowerhost:
  "httpClient_do ex_lowerhost_httpClient ex_created =
     ((201, 1500, None), [TransportDo ex_lowerhost_Request, BodyDrain, BodyClose])"
proof -
  have b: "hc_body ex_lowerhost_httpClient = Some ''{}''"
    by (simp add: ex_lowerhost_httpClient_def ex_httpClient_def)
  have "httpClient_do ex_lowerhost_httpClient ex_created =
      httpClient_fire ex_created ex_lowerhost_Request []"
    using ex_lowerhost_prepare by (simp add: httpClient_do_def b)
  then show ?thesis
    by (simp add: httpClient_fire_def ex_created_def io_Copy_Discard_def ReadCloser_Close_def
        NopCloser_def usTaken_of_def signed_divide_int_def)
qed

lemma ex_new_vhost_http:
  "newHTTPClient ex_url_Parse ex_URL_Parse ex_vhost_opts = Return ex_vhost_httpClient"
  by (simp add: newHTTPClient_def ex_url_Parse_def ex_opts_def ex_vhost_opts_def
      ex_httpClient_def ex_vhost_httpClient_def headersToHTTPHeaders_def)

lemma ex_do_fh_body:
  assumes "fc_body c = Some b" and "transport_Do w ((fasthttpClient_prepare c)\<lparr>fh_Body := BodyString b\<rparr>) = Inr resp"
  shows "fasthttpClient_do c w =
     ((fh_StatusCode resp, usTaken_of (since_ns w), None),
      [AcquireRequest, AcquireResponse,
       TransportDo ((fasthttpClient_prepare c)\<lparr>fh_Body := BodyString b\<rparr>),
       ReleaseRequest, ReleaseResponse])"
  using assms by (simp add: fasthttpClient_do_def fasthttpClient_fire_def)

lemma ex_emptyhost_prepare:
  "(fasthttpClient_prepare ex_emptyhost_fasthttpClient)\<lparr>fh_Body := BodyString ''{}''\<rparr> =
     ex_emptyhost_fh_Request"
  by (simp add: fasthttpClient_prepare_def ex_emptyhost_fasthttpClient_def ex_fasthttpClient_def
      ex_emptyhost_fh_Request_def fasthttp_AcquireRequest_def RequestHeader_Host_def
      RequestHeader_SetHost_def RequestHeader_new_def)

lemma ex_vhost_fh_prepare:
  "(fasthttpClient_prepare ex_vhost_fasthttpClient)\<lparr>fh_Body := BodyString ''{}''\<rparr> =
     ex_vhost_fh_Request"
  by (simp add: fasthttpClient_prepare_def ex_vhost_fasthttpClient_def ex_fasthttpClient_def
      ex_vhost_fh_Request_def ex_fh_Request_def fasthttp_AcquireRequest_def RequestHeader_Host_def
      RequestHeader_SetHost_def RequestHeader_new_def)

lemma ex_vhost_prepare:
  "(httpClient_prepare ex_vhost_httpClient)\<lparr>ContentLength := 2, Body := Some (NopCloser ''{}'')\<rparr> =
     ex_vhost_Request"
  by (simp add: httpClient_prepare_def ex_vhost_httpClient_def ex_httpClient_def
      ex_vhost_Request_def ex_Request_def Header_Get_def)

lemma ex_do_emptyhost:
  "fasthttpClient_do ex_emptyhost_fasthttpClient ex_created_fh =
     ((201, 1500, None),
      [AcquireRequest, AcquireResponse, TransportDo ex_emptyhost_fh_Request,
       ReleaseRequest, ReleaseResponse])"
proof -
  have b: "fc_body ex_emptyhost_fasthttpClient = Some ''{}''"
    by (simp add: ex_emptyhost_fasthttpClient_def ex_fasthttpClient_def)
  have t: "transport_Do ex_created_fh
      ((fasthttpClient_prepare ex_emptyhost_fasthttpClient)\<lparr>fh_Body := BodyString ''{}''\<rparr>) =
      Inr \<lparr> fh_StatusCode = 201 \<rparr>"
    by (simp add: ex_created_fh_def)
  show ?thesis
    using ex_do_fh_body [OF b t] ex_emptyhost_prepare
    by (simp add: ex_created_fh_def usTaken_of_def signed_divide_int_def)
qed

lemma ex_do_vhost_fh:
  "TransportDo ex_vhost_fh_Request \<in> set (snd (fasthttpClient_do ex_vhost_fasthttpClient ex_created_fh))"
proof -
  have b: "fc_body ex_vhost_fasthttpClient = Some ''{}''"
    by (simp add: ex_vhost_fasthttpClient_def ex_fasthttpClient_def)
  have t: "transport_Do ex_created_fh
      ((fasthttpClient_prepare ex_vhost_fasthttpClient)\<lparr>fh_Body := BodyString ''{}''\<rparr>) =
      Inr \<lparr> fh_StatusCode = 201 \<rparr>"
    by (simp add: ex_created_fh_def)
  show ?thesis
    using ex_do_fh_body [OF b t] ex_vhost_fh_prepare by simp
qed

lemma ex_do_vhost:
  "TransportDo ex_vhost_Request \<in> set (snd (httpClient_do ex_vhost_httpClient ex_created))"
proof -
  have b: "hc_body ex_vhost_httpClient = Some ''{}''"
    by (simp add: ex_vhost_httpClient_def ex_httpClient_def)
  have "httpClient_do ex_vhost_httpClient ex_created = httpClient_fire ex_created ex_vhost_Request []"
    using ex_vhost_prepare by (simp add: httpClient_do_def b)
  then show ?thesis
    by (simp add: httpClient_fire_def ex_created_def Let_def)
qed

text \<open>
  C5, as stated, fails in two ways. An explicit \<open>Host\<close> header with an empty value does
  not override: the fasthttp client built from that list sends the host of the URL. And
  the net/http client does not see a \<open>Host\<close> header spelled otherwise: built from a list
  with the header \<open>host\<close>, it leaves the field \<^verbatim>\<open>Host\<close> of the request empty.
\<close>

theorem C5_empty_host_header_counterexample:
  "headers ex_emptyhost_opts = [\<lparr> key = ''Host'', val = [] \<rparr>] \<and>
   newFastHTTPClient ex_url_Parse (\<lambda>k. k) ex_emptyhost_opts = Return ex_emptyhost_fasthttpClient \<and>
   fasthttpClient_do ex_emptyhost_fasthttpClient ex_created_fh =
     ((201, 1500, None),
      [AcquireRequest, AcquireResponse, TransportDo ex_emptyhost_fh_Request,
       ReleaseRequest, ReleaseResponse]) \<and>
   RequestHeader_Host (fh_Header ex_emptyhost_fh_Request) = ''example.test'' \<and>
   headers ex_lowerhost_opts = [\<lparr> key = ''host'', val = ''c.test'' \<rparr>] \<and>
   newHTTPClient ex_url_Parse ex_URL_Parse ex_lowerhost_opts = Return ex_lowerhost_httpClient \<and>
   httpClient_do ex_lowerhost_httpClient ex_created =
     ((201, 1500, None), [TransportDo ex_lowerhost_Request, BodyDrain, BodyClose]) \<and>
   Host ex_lowerhost_Request = []"
  using ex_new_emptyhost ex_do_emptyhost ex_new_lowerhost ex_do_lowerhost
  by (simp add: ex_emptyhost_opts_def ex_emptyhost_fh_Request_def RequestHeader_Host_def
      ex_lowerhost_opts_def ex_lowerhost_Request_def ex_Request_def)

theorem C5_explicit_host_header_witness:
  "newFastHTTPClient ex_url_Parse (\<lambda>k. k) ex_vhost_opts = Return ex_vhost_fasthttpClient \<and>
   TransportDo ex_vhost_fh_Request \<in> set (snd (fasthttpClient_do ex_vhost_fasthttpClient ex_created_fh)) \<and>
   last_value (\<lambda>k. k) (headers ex_vhost_opts) ''Host'' = Some ''b.test'' \<and>
   RequestHeader_Host (fh_Header ex_vhost_fh_Request) = ''b.test'' \<and>
   newHTTPClient ex_url_Parse ex_URL_Parse ex_vhost_opts = Return ex_vhost_httpClient \<and>
   TransportDo ex_vhost_Request \<in> set (snd (httpClient_do ex_vhost_httpClient ex_created)) \<and>
   Host ex_vhost_Request = ''b.test'' \<and>
   newFastHTTPClient ex_url_Parse (\<lambda>k. k) ex_opts = Return ex_fasthttpClient \<and>
   TransportDo ex_fh_Request \<in> set (snd (fasthttpClient_do ex_fasthttpClient ex_refused_fh)) \<and>
   last_value (\<lambda>k. k) (headers ex_opts) ''Host'' = None \<and>
   RequestHeader_Host (fh_Header ex_fh_Request) = ''example.test''"
proof -
  have l: "last_value (\<lambda>k. k) (headers ex_vhost_opts) ''Host'' = Some ''b.test''"
    by (simp add: last_value_def ex_vhost_opts_def)
  have n: "last_value (\<lambda>k. k) (headers ex_opts) ''Host'' = None"
    by (simp add: last_value_def ex_opts_def)
  have u: "ex_url_Parse (url ex_opts) =
      Inr \<lparr> u_Scheme = ''http'', u_Host = ''example.test'', u_RequestURI = ''/items'' \<rparr>"
    by (simp add: ex_url_Parse_def ex_opts_def)
  have s: "TransportDo ex_fh_Request \<in> set (snd (fasthttpClient_do ex_fasthttpClient ex_refused_fh))"
    by (simp add: ex_do_refused_fh)
  have 1: "RequestHeader_Host (fh_Header ex_vhost_fh_Request) = ''b.test''"
    using C5_explicit_host_header [of ex_url_Parse "\<lambda>k. k" ex_vhost_opts ex_vhost_fasthttpClient
        ex_vhost_fh_Request ex_created_fh] ex_new_vhost ex_do_vhost_fh l
    by simp
  have 2: "Host ex_vhost_Request = ''b.test''"
    using C5_explicit_host_header [of ex_url_Parse "\<lambda>k. k" ex_vhost_opts _ _ _ ex_URL_Parse
        ex_vhost_httpClient ex_vhost_Request ex_created] ex_new_vhost_http ex_do_vhost l
    by simp
  have 3: "RequestHeader_Host (fh_Header ex_fh_Request) = ''example.test''"
    using C5_explicit_host_header [of ex_url_Parse "\<lambda>k. k" ex_opts ex_fasthttpClient
        ex_fh_Request ex_refused_fh] ex_new_fasthttp s n u
    by simp
  show ?thesis
    using 1 2 3 l n s ex_new_vhost ex_do_vhost_fh ex_new_vhost_http ex_do_vhost ex_new_fasthttp
    by simp
qed

section \<open>The dial function of the fasthttp client\<close>

lemma Contains_sublist: "strings_Contains s sub \<longleftrightarrow> sublist sub s"
  by (induction s) (auto simp: sublist_Cons_right)

lemma Replace_prefix: "strings_Replace (old @ rest) old new (Suc 0) = new @ rest"
proof (cases "old @ rest")
  case Nil
  then show ?thesis by simp
next
  case (Cons c cs)
  have p: "prefix old (old @ rest)" by simp
  have d: "drop (length old) (old @ rest) = rest" by simp
  show ?thesis using p d unfolding Cons by (auto simp: Cons)
qed

lemma Replace_absent: "\<not> sublist old s \<Longrightarrow> strings_Replace s old new n = s"
  by (induction s old new n rule: strings_Replace.induct) (auto simp: sublist_Cons_right)

lemma prefix_within:
  assumes "prefix xs (ys @ zs)" and "length xs \<le> length ys"
  shows "prefix xs ys"
  using assms prefix_length_prefix [of xs "ys @ zs" ys] by simp

lemma Replace_first:
  assumes "old \<noteq> []" and "\<not> sublist old (pre @ butlast old)"
  shows "strings_Replace (pre @ old @ post) old new (Suc 0) = pre @ new @ post"
  using assms(2)
proof (induction pre)
  case Nil
  show ?case using Replace_prefix [of old post new] by simp
next
  case (Cons c pre)
  have n: "\<not> prefix old (c # pre @ butlast old)" and s: "\<not> sublist old (pre @ butlast old)"
    using Cons.prems by (auto simp: sublist_Cons_right)
  have e: "c # pre @ old @ post = (c # pre @ butlast old) @ (last old # post)"
    using assms(1) by simp
  have l: "length old \<le> length (c # pre @ butlast old)"
    using assms(1) by (cases old) auto
  have "\<not> prefix old (c # pre @ old @ post)"
    using n prefix_within [OF _ l] unfolding e by blast
  then show ?case
    using assms(1) Cons.IH [OF s] by simp
qed

lemma Replace_removed_first:
  assumes "old \<noteq> []"
  shows "removed_first old s t \<longleftrightarrow> t = strings_Replace s old [] (Suc 0)"
proof (cases "sublist old s")
  case False
  then show ?thesis
    by (auto simp: removed_first_def Replace_absent)
next
  case True
  have ex: "\<exists>pre post. s = pre @ old @ post \<and> \<not> sublist old (pre @ butlast old)"
    using True
  proof (induction s)
    case Nil
    then show ?case using assms by simp
  next
    case (Cons c s)
    show ?case
    proof (cases "prefix old (c # s)")
      case True
      then obtain post where "c # s = [] @ old @ post" by (auto simp: prefix_def)
      moreover have "\<not> sublist old ([] @ butlast old)"
        using assms sublist_length_le [of old "butlast old"] by (cases old) auto
      ultimately show ?thesis by blast
    next
      case False
      then have "sublist old s" using Cons.prems by (simp add: sublist_Cons_right)
      then obtain pre post where p: "s = pre @ old @ post" "\<not> sublist old (pre @ butlast old)"
        using Cons.IH by blast
      have e: "c # s = (c # pre @ butlast old) @ (last old # post)"
        using assms p(1) by simp
      have l: "length old \<le> length (c # pre @ butlast old)"
        using assms by (cases old) auto
      have "\<not> prefix old (c # pre @ butlast old)"
        using False prefix_prefix [of old "c # pre @ butlast old" "last old # post"] e by metis
      then have "\<not> sublist old ((c # pre) @ butlast old)"
        using p(2) by (simp add: sublist_Cons_right)
      moreover have "c # s = (c # pre) @ old @ post" using p(1) by simp
      ultimately show ?thesis by blast
    qed
  qed
  show ?thesis
  proof
    assume "removed_first old s t"
    then obtain pre post where "s = pre @ old @ post" "\<not> sublist old (pre @ butlast old)" "t = pre @ post"
      using True by (auto simp: removed_first_def)
    then show "t = strings_Replace s old [] (Suc 0)"
      using Replace_first [OF assms, of pre post "[]"] by simp
  next
    assume t: "t = strings_Replace s old [] (Suc 0)"
    from ex obtain pre post where p: "s = pre @ old @ post" "\<not> sublist old (pre @ butlast old)"
      by blast
    then have "t = pre @ post"
      using t Replace_first [OF assms, of pre post "[]"] by simp
    then show "removed_first old s t"
      using p by (auto simp: removed_first_def)
  qed
qed

lemma dial_cases:
  "newFastHTTPClient_dial opts =
     (if proxyUrl opts = [] then fasthttpDialFunc (bytesRead opts) (bytesWritten opts)
      else if sublist ''socks5'' (proxyUrl opts)
        then FasthttpSocksDialer (strings_Replace (proxyUrl opts) ''socks5://'' [] (Suc 0))
      else FasthttpHTTPDialer
        (strings_Replace (strings_Replace (proxyUrl opts) ''https://'' [] (Suc 0)) ''http://'' [] (Suc 0)))"
  by (simp add: newFastHTTPClient_dial_def Contains_sublist Let_def)

lemma new_fasthttp_Dial:
  "newFastHTTPClient P norm opts = Return c \<Longrightarrow> Dial (fc_client c) = newFastHTTPClient_dial opts"
  by (auto simp: newFastHTTPClient_def split: sum.splits)

text \<open>
  C4, as amended. The constructor of the fasthttp client chooses the dial function from
  the proxy URL alone. An empty proxy URL gives the instrumented direct dialer on the
  two counters of the configuration. A proxy URL that is not empty and contains
  \<open>socks5\<close> gives the SOCKS5 dialer on the URL without its first occurrence of
  \<open>socks5://\<close>: the rest of the URL when it starts with that marker. Any other
  proxy URL that is not empty gives the HTTP dialer on the URL without its first
  occurrence of \<open>https://\<close> and then without the first occurrence of \<open>http://\<close> in
  what is left: the rest of the URL when it starts with one of the two markers and the
  rest does not contain the other one.
\<close>

theorem C4_dial_strategy:
  "newFastHTTPClient P norm opts = Return c \<longrightarrow>
     (proxyUrl opts = [] \<longrightarrow>
        Dial (fc_client c) = fasthttpDialFunc (bytesRead opts) (bytesWritten opts)) \<and>
     (proxyUrl opts \<noteq> [] \<and> sublist ''socks5'' (proxyUrl opts) \<longrightarrow>
        (\<exists>a. Dial (fc_client c) = FasthttpSocksDialer a \<and>
             removed_first ''socks5://'' (proxyUrl opts) a \<and>
             (\<forall>rest. proxyUrl opts = ''socks5://'' @ rest \<longrightarrow> a = rest))) \<and>
     (proxyUrl opts \<noteq> [] \<and> \<not> sublist ''socks5'' (proxyUrl opts) \<longrightarrow>
        (\<exists>q a. Dial (fc_client c) = FasthttpHTTPDialer a \<and>
             removed_first ''https://'' (proxyUrl opts) q \<and> removed_first ''http://'' q a \<and>
             (\<forall>rest. proxyUrl opts = ''http://'' @ rest \<and> \<not> sublist ''https://'' rest \<longrightarrow> a = rest) \<and>
             (\<forall>rest. proxyUrl opts = ''https://'' @ rest \<and> \<not> sublist ''http://'' rest \<longrightarrow> a = rest)))"
proof (intro impI conjI)
  assume n: "newFastHTTPClient P norm opts = Return c"
  note d = new_fasthttp_Dial [OF n]
  show "Dial (fc_client c) = fasthttpDialFunc (bytesRead opts) (bytesWritten opts)"
    if "proxyUrl opts = []"
    using that d by (simp add: dial_cases)
  show "\<exists>a. Dial (fc_client c) = FasthttpSocksDialer a \<and>
          removed_first ''socks5://'' (proxyUrl opts) a \<and>
          (\<forall>rest. proxyUrl opts = ''socks5://'' @ rest \<longrightarrow> a = rest)"
    if h: "proxyUrl opts \<noteq> [] \<and> sublist ''socks5'' (proxyUrl opts)"
  proof -
    let ?a = "strings_Replace (proxyUrl opts) ''socks5://'' [] (Suc 0)"
    have "Dial (fc_client c) = FasthttpSocksDialer ?a"
      using h d by (simp add: dial_cases)
    moreover have "removed_first ''socks5://'' (proxyUrl opts) ?a"
      by (simp add: Replace_removed_first)
    moreover have "\<forall>rest. proxyUrl opts = ''socks5://'' @ rest \<longrightarrow> ?a = rest"
      using Replace_prefix [of "''socks5://''" _ "[]"] by auto
    ultimately show ?thesis by blast
  qed
  show "\<exists>q a. Dial (fc_client c) = FasthttpHTTPDialer a \<and>
          removed_first ''https://'' (proxyUrl opts) q \<and> removed_first ''http://'' q a \<and>
          (\<forall>rest. proxyUrl opts = ''http://'' @ rest \<and> \<not> sublist ''https://'' rest \<longrightarrow> a = rest) \<and>
          (\<forall>rest. proxyUrl opts = ''https://'' @ rest \<and> \<not> sublist ''http://'' rest \<longrightarrow> a = rest)"
    if h: "proxyUrl opts \<noteq> [] \<and> \<not> sublist ''socks5'' (proxyUrl opts)"
  proof -
    let ?q = "strings_Replace (proxyUrl opts) ''https://'' [] (Suc 0)"
    let ?a = "strings_Replace ?q ''http://'' [] (Suc 0)"
    have 1: "Dial (fc_client c) = FasthttpHTTPDialer ?a"
      using h d by (simp add: dial_cases)
    have 2: "removed_first ''https://'' (proxyUrl opts) ?q"
      by (simp add: Replace_removed_first)
    have 3: "removed_first ''http://'' ?q ?a"
      by (simp add: Replace_removed_first)
    have 4: "?a = rest" if r: "proxyUrl opts = ''http://'' @ rest \<and> \<not> sublist ''https://'' rest" for rest
    proof -
      have "\<not> sublist ''https://'' (''http://'' @ rest)"
        using r by (simp add: sublist_Cons_right)
      then have "?q = ''http://'' @ rest"
        using r Replace_absent by metis
      then show ?thesis
        using Replace_prefix [of "''http://''" rest "[]"] by simp
    qed
    have 5: "?a = rest" if r: "proxyUrl opts = ''https://'' @ rest \<and> \<not> sublist ''http://'' rest" for rest
    proof -
      have "?q = rest"
        using r Replace_prefix [of "''https://''" rest "[]"] by simp
      then show ?thesis
        using r Replace_absent by metis
    qed
    show ?thesis using 1 2 3 4 5 by blast
  qed
qed

lemma ex_new_fasthttp_with_proxy:
  assumes "newFastHTTPClient_dial (ex_opts\<lparr>proxyUrl := p\<rparr>) = d"
  shows "newFastHTTPClient ex_url_Parse (\<lambda>k. k) (ex_opts\<lparr>proxyUrl := p\<rparr>) =
     Return (ex_fasthttpClient\<lparr>fc_client := (fc_client ex_fasthttpClient)\<lparr>Dial := d\<rparr>\<rparr>)"
  using assms
  by (simp add: newFastHTTPClient_def ex_url_Parse_def ex_opts_def ex_fasthttpClient_def
      headersToFastHTTPHeaders_def RequestHeader_Set_def)

lemma ex_new_socks:
  "newFastHTTPClient ex_url_Parse (\<lambda>k. k) ex_socks_opts = Return ex_socks_fasthttpClient"
  unfolding ex_socks_opts_def ex_socks_fasthttpClient_def
  by (rule ex_new_fasthttp_with_proxy) (simp add: newFastHTTPClient_dial_def ex_opts_def)

lemma ex_new_proxy:
  "newFastHTTPClient ex_url_Parse (\<lambda>k. k) ex_proxy_opts = Return ex_proxy_fasthttpClient"
  unfolding ex_proxy_opts_def ex_proxy_fasthttpClient_def
  by (rule ex_new_fasthttp_with_proxy) (simp add: newFastHTTPClient_dial_def ex_opts_def)

lemma ex_new_nested:
  "newFastHTTPClient ex_url_Parse (\<lambda>k. k) ex_nested_opts = Return ex_nested_fasthttpClient"
  unfolding ex_nested_opts_def ex_nested_fasthttpClient_def
  by (rule ex_new_fasthttp_with_proxy) (simp add: newFastHTTPClient_dial_def ex_opts_def)

text \<open>
  C4, as stated, fails where it says that the HTTP dialer is given the URL with its
  \<open>http://\<close> prefix stripped: for a proxy URL with a second marker inside, the code
  removes that one too.
\<close>

theorem C4_prefix_stripping_counterexample:
  "proxyUrl ex_nested_opts = ''http://a/https://b'' \<and>
   \<not> strings_Contains (proxyUrl ex_nested_opts) ''socks5'' \<and>
   newFastHTTPClient ex_url_Parse (\<lambda>k. k) ex_nested_opts = Return ex_nested_fasthttpClient \<and>
   Dial (fc_client ex_nested_fasthttpClient) = FasthttpHTTPDialer ''a/b'' \<and>
   strings_TrimPrefix (proxyUrl ex_nested_opts) ''http://'' = ''a/https://b''"
  using ex_new_nested
  by (simp add: ex_nested_opts_def ex_nested_fasthttpClient_def strings_TrimPrefix_def)

theorem C4_dial_strategy_witness:
  "proxyUrl ex_opts = [] \<and>
   newFastHTTPClient ex_url_Parse (\<lambda>k. k) ex_opts = Return ex_fasthttpClient \<and>
   Dial (fc_client ex_fasthttpClient) = fasthttpDialFunc (bytesRead ex_opts) (bytesWritten ex_opts) \<and>
   proxyUrl ex_socks_opts \<noteq> [] \<and> sublist ''socks5'' (proxyUrl ex_socks_opts) \<and>
   proxyUrl ex_socks_opts = ''socks5://'' @ ''proxy.test:1080'' \<and>
   newFastHTTPClient ex_url_Parse (\<lambda>k. k) ex_socks_opts = Return ex_socks_fasthttpClient \<and>
   Dial (fc_client ex_socks_fasthttpClient) = FasthttpSocksDialer ''proxy.test:1080'' \<and>
   proxyUrl ex_proxy_opts \<noteq> [] \<and> \<not> sublist ''socks5'' (proxyUrl ex_proxy_opts) \<and>
   proxyUrl ex_proxy_opts = ''http://'' @ ''proxy.test:8080'' \<and>
   \<not> sublist ''https://'' ''proxy.test:8080'' \<and>
   newFastHTTPClient ex_url_Parse (\<lambda>k. k) ex_proxy_opts = Return ex_proxy_fasthttpClient \<and>
   Dial (fc_client ex_proxy_fasthttpClient) = FasthttpHTTPDialer ''proxy.test:8080''"
proof -
  have e: "proxyUrl ex_opts = []"
    by (simp add: ex_opts_def)
  have s: "proxyUrl ex_socks_opts \<noteq> [] \<and> sublist ''socks5'' (proxyUrl ex_socks_opts) \<and>
      proxyUrl ex_socks_opts = ''socks5://'' @ ''proxy.test:1080''"
    by (simp add: ex_socks_opts_def Contains_sublist [symmetric])
  have p: "proxyUrl ex_proxy_opts \<noteq> [] \<and> \<not> sublist ''socks5'' (proxyUrl ex_proxy_opts) \<and>
      proxyUrl ex_proxy_opts = ''http://'' @ ''proxy.test:8080'' \<and>
      \<not> sublist ''https://'' ''proxy.test:8080''"
    by (simp add: ex_proxy_opts_def Contains_sublist [symmetric])
  have 1: "Dial (fc_client ex_fasthttpClient) =
      fasthttpDialFunc (bytesRead ex_opts) (bytesWritten ex_opts)"
    using C4_dial_strategy [of ex_url_Parse "\<lambda>k. k" ex_opts ex_fasthttpClient] ex_new_fasthttp e
    by blast
  have 2: "Dial (fc_client ex_socks_fasthttpClient) = FasthttpSocksDialer ''proxy.test:1080''"
    using C4_dial_strategy [of ex_url_Parse "\<lambda>k. k" ex_socks_opts ex_socks_fasthttpClient]
      ex_new_socks s
    by blast
  have 3: "Dial (fc_client ex_proxy_fasthttpClient) = FasthttpHTTPDialer ''proxy.test:8080''"
    using C4_dial_strategy [of ex_url_Parse "\<lambda>k. k" ex_proxy_opts ex_proxy_fasthttpClient]
      ex_new_proxy p
    by blast
  show ?thesis
    using e s p 1 2 3 ex_new_fasthttp ex_new_socks ex_new_proxy by blast
qed

section \<open>Where the instrumented dialer is used\<close>

lemma ex_new_proxy_http:
  "newHTTPClient ex_url_Parse ex_URL_Parse ex_proxy_opts = Return ex_proxy_httpClient"
  by (simp add: newHTTPClient_def ex_url_Parse_def ex_URL_Parse_def ex_opts_def ex_proxy_opts_def
      ex_httpClient_def ex_proxy_httpClient_def headersToHTTPHeaders_def)

lemma new_http_client:
  assumes "newHTTPClient P U opts = Return c"
  shows "hc_client c =
     \<lparr> Transport =
         \<lparr> TLSClientConfig =
             (if HTTP2 opts
              then Some (http2_NextProtos
                (case tlsConfig opts of None \<Rightarrow> \<lparr> NextProtos = [], tls_rest = 0 \<rparr> | Some c \<Rightarrow> c))
              else tlsConfig opts),
           MaxIdleConnsPerHost = maxConns opts,
           DisableKeepAlives = disableKeepAlives opts,
           Proxy = (if proxyUrl opts \<noteq> [] then Some (ProxyURL (U (proxyUrl opts))) else None),
           DialContext = Some (httpDialContextFunc (bytesRead opts) (bytesWritten opts)),
           TLSNextProto = Some (if HTTP2 opts then NextProtoHTTP2 else NextProtoNone) \<rparr>,
       Timeout = timeout opts, CheckRedirect = ErrUseLastResponse \<rparr>"
  using assms
  by (auto simp: newHTTPClient_def http2_ConfigureTransport_def Let_def
      split: sum.splits option.splits)

text \<open>
  C6, as amended. In the fasthttp client the instrumented dialer is used exactly when
  the proxy URL is empty: with a proxy URL the dial function is one of the proxy dialers
  of the library, which count nothing. In the net/http client the instrumented dial
  function, on the two counters of the configuration, is installed on the transport
  whatever the proxy URL is.
\<close>

theorem C6_instrumented_dialer:
  "(newFastHTTPClient P norm opts = Return ca \<longrightarrow>
      (counts_bytes (Dial (fc_client ca)) \<longleftrightarrow> proxyUrl opts = [])) \<and>
   (newHTTPClient P U opts = Return cb \<longrightarrow>
      DialContext (Transport (hc_client cb)) =
        Some (httpDialContextFunc (bytesRead opts) (bytesWritten opts)) \<and>
      (\<forall>d. DialContext (Transport (hc_client cb)) = Some d \<longrightarrow> counts_bytes_ctx d))"
proof (intro conjI impI)
  assume "newFastHTTPClient P norm opts = Return ca"
  then show "counts_bytes (Dial (fc_client ca)) \<longleftrightarrow> proxyUrl opts = []"
    using new_fasthttp_Dial [of P norm opts ca] by (simp add: dial_cases)
next
  assume "newHTTPClient P U opts = Return cb"
  then show d: "DialContext (Transport (hc_client cb)) =
      Some (httpDialContextFunc (bytesRead opts) (bytesWritten opts))"
    by (simp add: new_http_client)
  then show "\<forall>d. DialContext (Transport (hc_client cb)) = Some d \<longrightarrow> counts_bytes_ctx d"
    by simp
qed

theorem C6_instrumented_dialer_witness:
  "newFastHTTPClient ex_url_Parse (\<lambda>k. k) ex_proxy_opts = Return ex_proxy_fasthttpClient \<and>
   proxyUrl ex_proxy_opts \<noteq> [] \<and>
   \<not> counts_bytes (Dial (fc_client ex_proxy_fasthttpClient)) \<and>
   newHTTPClient ex_url_Parse ex_URL_Parse ex_proxy_opts = Return ex_proxy_httpClient \<and>
   DialContext (Transport (hc_client ex_proxy_httpClient)) = Some (httpDialContextFunc 1 2)"
proof -
  have p: "proxyUrl ex_proxy_opts \<noteq> [] \<and> bytesRead ex_proxy_opts = 1 \<and> bytesWritten ex_proxy_opts = 2"
    by (simp add: ex_proxy_opts_def ex_opts_def)
  show ?thesis
    using p ex_new_proxy ex_new_proxy_http
      C6_instrumented_dialer [of ex_url_Parse "\<lambda>k. k" ex_proxy_opts ex_proxy_fasthttpClient
        ex_URL_Parse ex_proxy_httpClient]
    by simp
qed

text \<open>
  C6, as stated, fails for the net/http client: built with a proxy URL, its transport
  still dials through the instrumented function.
\<close>

theorem C6_proxied_net_http_counterexample:
  "proxyUrl ex_proxy_opts \<noteq> [] \<and>
   newHTTPClient ex_url_Parse ex_URL_Parse ex_proxy_opts = Return ex_proxy_httpClient \<and>
   DialContext (Transport (hc_client ex_proxy_httpClient)) = Some (httpDialContextFunc 1 2) \<and>
   counts_bytes_ctx (httpDialContextFunc 1 2)"
  using ex_new_proxy_http
  by (simp add: ex_proxy_opts_def ex_proxy_httpClient_def ex_httpClient_def)

section \<open>Options on the transport\<close>

lemma http2_NextProtos_keeps:
  "tls_rest (http2_NextProtos cfg) = tls_rest cfg \<and>
   set (NextProtos (http2_NextProtos cfg)) = set (NextProtos cfg) \<union> {''h2'', ''http/1.1''}"
  by (auto simp: http2_NextProtos_def Let_def)

lemma ex_new_h2:
  "newHTTPClient ex_url_Parse ex_URL_Parse ex_h2_opts = Return ex_h2_httpClient"
  by (simp add: newHTTPClient_def ex_url_Parse_def ex_opts_def ex_h2_opts_def ex_httpClient_def
      ex_h2_httpClient_def headersToHTTPHeaders_def http2_ConfigureTransport_def
      http2_NextProtos_def)

text \<open>
  C7, as amended. The transport of the fasthttp client takes \<^verbatim>\<open>MaxConns\<close>, the
  timeout (as \<^verbatim>\<open>ReadTimeout\<close> and as \<^verbatim>\<open>WriteTimeout\<close>) and the TLS configuration from
  the options, and does not depend on \<^verbatim>\<open>disableKeepAlives\<close>: any value of that option
  builds the same client. The net/http client takes the maximum of connections as
  \<^verbatim>\<open>MaxIdleConnsPerHost\<close>, the timeout as the \<^verbatim>\<open>Timeout\<close> of the client, and
  \<^verbatim>\<open>DisableKeepAlives\<close>; without HTTP/2 its transport has the TLS configuration of the
  options, and with HTTP/2 it has that configuration, or a new one when the options have
  none, with \<open>h2\<close> and \<open>http/1.1\<close> added to its \<^verbatim>\<open>NextProtos\<close>.
\<close>

theorem C7_options_on_the_transport:
  "(newFastHTTPClient P norm opts = Return ca \<longrightarrow>
      MaxConns (fc_client ca) = maxConns opts \<and>
      ReadTimeout (fc_client ca) = timeout opts \<and>
      WriteTimeout (fc_client ca) = timeout opts \<and>
      TLSConfig (fc_client ca) = tlsConfig opts \<and>
      newFastHTTPClient P norm (opts\<lparr>disableKeepAlives := b\<rparr>) = Return ca) \<and>
   (newHTTPClient P U opts = Return cb \<longrightarrow>
      MaxIdleConnsPerHost (Transport (hc_client cb)) = maxConns opts \<and>
      Timeout (hc_client cb) = timeout opts \<and>
      DisableKeepAlives (Transport (hc_client cb)) = disableKeepAlives opts \<and>
      (\<not> HTTP2 opts \<longrightarrow> TLSClientConfig (Transport (hc_client cb)) = tlsConfig opts) \<and>
      (HTTP2 opts \<longrightarrow>
         (\<exists>cfg. TLSClientConfig (Transport (hc_client cb)) = Some cfg \<and>
            tls_rest cfg = (case tlsConfig opts of None \<Rightarrow> 0 | Some c \<Rightarrow> tls_rest c) \<and>
            set (NextProtos cfg) =
              (case tlsConfig opts of None \<Rightarrow> {} | Some c \<Rightarrow> set (NextProtos c)) \<union>
              {''h2'', ''http/1.1''})))"
proof (intro conjI impI)
  assume a: "newFastHTTPClient P norm opts = Return ca"
  then show "MaxConns (fc_client ca) = maxConns opts"
    and "ReadTimeout (fc_client ca) = timeout opts"
    and "WriteTimeout (fc_client ca) = timeout opts"
    and "TLSConfig (fc_client ca) = tlsConfig opts"
    by (auto simp: newFastHTTPClient_def split: sum.splits)
  have "newFastHTTPClient_dial (opts\<lparr>disableKeepAlives := b\<rparr>) = newFastHTTPClient_dial opts"
    by (simp add: newFastHTTPClient_dial_def)
  then have "newFastHTTPClient P norm (opts\<lparr>disableKeepAlives := b\<rparr>) =
      newFastHTTPClient P norm opts"
    by (simp add: newFastHTTPClient_def cong: sum.case_cong)
  then show "newFastHTTPClient P norm (opts\<lparr>disableKeepAlives := b\<rparr>) = Return ca"
    using a by simp
next
  assume b: "newHTTPClient P U opts = Return cb"
  then show "MaxIdleConnsPerHost (Transport (hc_client cb)) = maxConns opts"
    and "Timeout (hc_client cb) = timeout opts"
    and "DisableKeepAlives (Transport (hc_client cb)) = disableKeepAlives opts"
    by (simp_all add: new_http_client)
  show "TLSClientConfig (Transport (hc_client cb)) = tlsConfig opts" if "\<not> HTTP2 opts"
    using that b by (simp add: new_http_client)
  show "\<exists>cfg. TLSClientConfig (Transport (hc_client cb)) = Some cfg \<and>
            tls_rest cfg = (case tlsConfig opts of None \<Rightarrow> 0 | Some c \<Rightarrow> tls_rest c) \<and>
            set (NextProtos cfg) =
              (case tlsConfig opts of None \<Rightarrow> {} | Some c \<Rightarrow> set (NextProtos c)) \<union>
              {''h2'', ''http/1.1''}"
    if "HTTP2 opts"
    using that b by (simp add: new_http_client http2_NextProtos_keeps split: option.splits)
qed

theorem C7_options_on_the_transport_witness:
  "newFastHTTPClient ex_url_Parse (\<lambda>k. k) ex_opts = Return ex_fasthttpClient \<and>
   MaxConns (fc_client ex_fasthttpClient) = 125 \<and>
   ReadTimeout (fc_client ex_fasthttpClient) = 2000000000 \<and>
   TLSConfig (fc_client ex_fasthttpClient) = Some ex_tls \<and>
   newHTTPClient ex_url_Parse ex_URL_Parse ex_opts = Return ex_httpClient \<and>
   \<not> HTTP2 ex_opts \<and>
   MaxIdleConnsPerHost (Transport (hc_client ex_httpClient)) = 125 \<and>
   Timeout (hc_client ex_httpClient) = 2000000000 \<and>
   \<not> DisableKeepAlives (Transport (hc_client ex_httpClient)) \<and>
   TLSClientConfig (Transport (hc_client ex_httpClient)) = Some ex_tls \<and>
   newHTTPClient ex_url_Parse ex_URL_Parse ex_h2_opts = Return ex_h2_httpClient \<and>
   HTTP2 ex_h2_opts \<and>
   (\<exists>cfg. TLSClientConfig (Transport (hc_client ex_h2_httpClient)) = Some cfg \<and>
      tls_rest cfg = 0 \<and> set (NextProtos cfg) = {''h2'', ''http/1.1''})"
proof -
  have o: "maxConns ex_opts = 125 \<and> timeout ex_opts = 2000000000 \<and>
      tlsConfig ex_opts = Some ex_tls \<and> \<not> disableKeepAlives ex_opts \<and> \<not> HTTP2 ex_opts"
    by (simp add: ex_opts_def)
  have h: "HTTP2 ex_h2_opts \<and> tlsConfig ex_h2_opts = None"
    by (simp add: ex_h2_opts_def)
  show ?thesis
    using o h ex_new_fasthttp ex_new_http ex_new_h2
      C7_options_on_the_transport [of ex_url_Parse "\<lambda>k. k" ex_opts ex_fasthttpClient True
        ex_URL_Parse ex_httpClient]
      C7_options_on_the_transport [of ex_url_Parse "\<lambda>k. k" ex_h2_opts _ _
        ex_URL_Parse ex_h2_httpClient]
    by simp
qed

text \<open>
  C7, as stated, fails for \<^verbatim>\<open>DisableKeepAlives\<close> in the fasthttp client: the options
  with keep-alives disabled build the client that the options with keep-alives build.
\<close>

theorem C7_keep_alives_fasthttp_counterexample:
  "\<not> disableKeepAlives ex_opts \<and>
   disableKeepAlives (ex_opts\<lparr>disableKeepAlives := True\<rparr>) \<and>
   newFastHTTPClient ex_url_Parse (\<lambda>k. k) ex_opts = Return ex_fasthttpClient \<and>
   newFastHTTPClient ex_url_Parse (\<lambda>k. k) (ex_opts\<lparr>disableKeepAlives := True\<rparr>) =
     Return ex_fasthttpClient"
  by (simp add: newFastHTTPClient_def ex_url_Parse_def ex_opts_def ex_fasthttpClient_def
      newFastHTTPClient_dial_def headersToFastHTTPHeaders_def RequestHeader_Set_def
      RequestHeader_new_def)

end
